theory Spec2Isabelle
  imports Complex_Main
begin

section \<open>Conventions of the embedding\<close>

text \<open>
  The program is Python. Its clock readings (\<open>time.time()\<close>), distances and temperatures are
  floats; they are modelled as \<^typ>\<open>real\<close>. Every reading of the clock, every GPIO level and
  every answer of the network is an input of the function that consumes it, in the order in
  which the source asks for it. Console output (\<open>print\<close>) and the LCD are not modelled.
  Python's \<open>None\<close> is \<^term>\<open>None\<close> of an option type; a dictionary is a map, and
  \<open>d.get(k)\<close> and \<open>d.get(k, default)\<close> are written out as case distinctions.
\<close>

section \<open>iot\_integrations.py\<close>

subsection \<open>ThingSpeakClient\<close>

text \<open>
  What \<open>requests.get\<close> can do: raise \<open>requests.RequestException\<close>, or return a response
  \<open>r\<close>. Of the response the source reads \<open>r.status_code\<close> and
  \<open>r.text.strip().isdigit()\<close>; the second is kept as the boolean the library computes.
\<close>

datatype http_result =
    RequestException
  | Response (status_code: int) (text_isdigit: bool)

record thingspeak_client =
  write_key :: string
  min_interval_sec :: int
  last_push :: real

text \<open>The dataclass defaults: \<open>min_interval_sec = 15\<close>, \<open>_last_push = 0.0\<close>.\<close>

definition ThingSpeakClient :: "string \<Rightarrow> thingspeak_client" where
  "ThingSpeakClient key = \<lparr>write_key = key, min_interval_sec = 15, last_push = 0\<rparr>"

definition mapping :: "string list" where
  "mapping = [''temp_c'', ''humidity'', ''water_height'', ''soil_dry'',
              ''pir_active'', ''distance_cm'', ''motor_on'', ''reserved'']"

text \<open>
  The loop over \<open>enumerate(mapping, start=1)\<close>: slot \<open>idx\<close> stands for the payload key
  \<open>field{idx}\<close>; \<open>kwargs\<close> is the source's \<open>**fields\<close>; a keyword that is absent or \<open>None\<close> fills no slot.
\<close>

fun fill_slots :: "nat \<Rightarrow> string list \<Rightarrow> (string \<rightharpoonup> 'v option) \<Rightarrow> (nat \<times> 'v) list" where
  "fill_slots idx [] kwargs = []"
| "fill_slots idx (key # keys) kwargs =
     (case kwargs key of
        Some (Some v) \<Rightarrow> (idx, v) # fill_slots (Suc idx) keys kwargs
      | _ \<Rightarrow> fill_slots (Suc idx) keys kwargs)"

record 'v payload =
  api_key :: string
  field_slots :: "(nat \<times> 'v) list"

record 'v push_outcome =
  returned :: bool
  requested :: "'v payload option"
  client :: thingspeak_client

text \<open>
  \<open>push\<close> at clock reading \<open>now\<close>; \<open>http\<close> is what \<open>requests.get\<close> does if it is
  called. \<open>requested\<close> is the payload of the request, \<open>None\<close> when no request is made.
\<close>

definition push ::
  "real \<Rightarrow> http_result \<Rightarrow> (string \<rightharpoonup> 'v option) \<Rightarrow> thingspeak_client \<Rightarrow> 'v push_outcome" where
  "push now http kwargs c =
     (if now - last_push c < real_of_int (min_interval_sec c)
      then \<lparr>returned = False, requested = None, client = c\<rparr>
      else
        let payload = \<lparr>api_key = write_key c, field_slots = fill_slots 1 mapping kwargs\<rparr>
        in (case http of
              Response code digits \<Rightarrow>
                \<lparr>returned = (code = 200 \<and> digits), requested = Some payload,
                 client = c\<lparr>last_push := now\<rparr>\<rparr>
            | RequestException \<Rightarrow>
                \<lparr>returned = False, requested = Some payload, client = c\<rparr>))"

text \<open>A sequence of calls on one client, each with its clock reading and network answer.\<close>

fun push_all ::
  "thingspeak_client \<Rightarrow> (real \<times> http_result \<times> (string \<rightharpoonup> 'v option)) list
     \<Rightarrow> bool list \<times> thingspeak_client" where
  "push_all c [] = ([], c)"
| "push_all c ((now, http, kwargs) # rest) =
     (let out = push now http kwargs c;
          (bs, c') = push_all (client out) rest
      in (returned out # bs, c'))"

subsection \<open>Telegram\<close>

text \<open>What \<open>requests.post\<close> can do; of the response the source reads \<open>r.ok\<close>.\<close>

datatype post_result =
    PostException
  | PostResponse (ok: bool)

definition send :: "post_result \<Rightarrow> bool" where
  "send r = (case r of PostResponse b \<Rightarrow> b | PostException \<Rightarrow> False)"

subsection \<open>AlertGate\<close>

text \<open>
  A state is any Python value, \<open>None\<close> included: \<^typ>\<open>'s option\<close>. Equality of states is
  HOL equality (the callers pass \<open>True\<close> and \<open>False\<close>).
\<close>

record 's alert_gate =
  cooldown_sec :: int
  last_sent :: "string \<rightharpoonup> real"
  last_state :: "string \<rightharpoonup> 's option"

text \<open>\<open>AlertGate(tg)\<close>: cooldown 60 s, both dictionaries empty.\<close>

definition AlertGate :: "'s alert_gate" where
  "AlertGate = \<lparr>cooldown_sec = 60, last_sent = Map.empty, last_state = Map.empty\<rparr>"

definition last_state_get :: "'s alert_gate \<Rightarrow> string \<Rightarrow> 's option" where
  "last_state_get g key = (case last_state g key of None \<Rightarrow> None | Some v \<Rightarrow> v)"

definition last_sent_get :: "'s alert_gate \<Rightarrow> string \<Rightarrow> real" where
  "last_sent_get g key = (case last_sent g key of None \<Rightarrow> 0 | Some t \<Rightarrow> t)"

text \<open>
  \<open>maybe_send\<close> at clock reading \<open>now\<close>; \<open>post\<close> is what the network does if
  \<open>tg.send\<close> is called. The first component lists the messages handed to \<open>tg.send\<close>.
\<close>

definition maybe_send ::
  "real \<Rightarrow> post_result \<Rightarrow> string \<Rightarrow> 's option \<Rightarrow> 'm \<Rightarrow> 's alert_gate \<Rightarrow> 'm list \<times> 's alert_gate" where
  "maybe_send now post key state msg_on_change g =
     (let changed = (last_state_get g key \<noteq> state);
          recently = (now - last_sent_get g key < real_of_int (cooldown_sec g))
      in if changed \<and> \<not> recently
         then
           let g1 = (if send post then g\<lparr>last_sent := (last_sent g)(key \<mapsto> now)\<rparr> else g)
           in ([msg_on_change], g1\<lparr>last_state := (last_state g1)(key \<mapsto> state)\<rparr>)
         else ([], g))"

text \<open>A history of calls on one gate, with the log of the sends it attempted.\<close>

record 's gate_call =
  call_now :: real
  call_post :: post_result
  call_key :: string
  call_state :: "'s option"

record send_event =
  ev_key :: string
  ev_time :: real
  ev_ok :: bool

definition gate_step :: "'s gate_call \<Rightarrow> 's alert_gate \<times> send_event list \<Rightarrow> 's alert_gate \<times> send_event list" where
  "gate_step c gl =
     (let (msgs, g') = maybe_send (call_now c) (call_post c) (call_key c) (call_state c) () (fst gl)
      in (g', snd gl @ map (\<lambda>_. \<lparr>ev_key = call_key c, ev_time = call_now c, ev_ok = send (call_post c)\<rparr>) msgs))"

definition run_calls :: "'s alert_gate \<Rightarrow> 's gate_call list \<Rightarrow> 's alert_gate \<times> send_event list" where
  "run_calls g cs = foldl (\<lambda>gl c. gate_step c gl) (g, []) cs"

text \<open>The time of the last successful send for a key in a log (oldest event first).\<close>

fun last_success :: "string \<Rightarrow> send_event list \<Rightarrow> real option" where
  "last_success k [] = None"
| "last_success k (e # es) =
     (case last_success k es of
        Some t \<Rightarrow> Some t
      | None \<Rightarrow> if ev_key e = k \<and> ev_ok e then Some (ev_time e) else None)"

section \<open>main.py\<close>

subsection \<open>Configuration and shared state\<close>

datatype gpio_level = LOW | HIGH

definition PIR_ACTIVE_LEVEL :: gpio_level where
  "PIR_ACTIVE_LEVEL = LOW"

definition MOISTURE_IS_DRY_LEVEL :: gpio_level where
  "MOISTURE_IS_DRY_LEVEL = HIGH"

definition BEAKER_HEIGHT_CM :: real where
  "BEAKER_HEIGHT_CM = 10"

definition WATER_LOW_DISTANCE_CM :: real where
  "WATER_LOW_DISTANCE_CM = 7"

definition TEMP_MIN_C :: real where
  "TEMP_MIN_C = - 20"

definition TEMP_MAX_C :: real where
  "TEMP_MAX_C = 80"

definition DHT_PERIOD :: real where
  "DHT_PERIOD = 5"

text \<open>The values held by the \<open>readings\<close> dictionary: floats and the integers 0 and 1.\<close>

datatype pyval = PyInt int | PyFloat real

text \<open>An exception raised by a collaborator (GPIO, the DHT driver).\<close>

datatype error = Exception

text \<open>The four alert texts; the water-low text carries the distance it prints.\<close>

datatype alert_msg = Water_LOW real | Water_OK_again | Soil_is_DRY | Soil_MOIST

text \<open>
  The module's globals the threads share: the \<open>readings\<close> dictionary, the level driven on
  the motor pin, the alert gate (\<open>None\<close> without Telegram credentials),
  \<open>last_distance_cm\<close>, the sampling loop's \<open>last_dht_time\<close>, and the messages handed to
  Telegram so far (oldest first).
\<close>

record system =
  readings :: "string \<rightharpoonup> pyval option"
  motor_pin :: gpio_level
  alerts :: "bool alert_gate option"
  last_distance_cm :: "real option"
  last_dht_time :: real
  sent :: "alert_msg list"

definition readings_init :: "string \<rightharpoonup> pyval option" where
  "readings_init =
     [''temp_c'' \<mapsto> None, ''humidity'' \<mapsto> None, ''distance_cm'' \<mapsto> None,
      ''water_height'' \<mapsto> None, ''soil_dry'' \<mapsto> None, ''pir_active'' \<mapsto> None,
      ''motor_on'' \<mapsto> Some (PyInt 0)]"

text \<open>The state when the threads start: \<open>main\<close> has driven the motor pin low.\<close>

definition boot :: "bool alert_gate option \<Rightarrow> system" where
  "boot gate =
     \<lparr>readings = readings_init, motor_pin = LOW, alerts = gate,
      last_distance_cm = None, last_dht_time = 0, sent = []\<rparr>"

subsection \<open>Helpers\<close>

definition slide_switch_on :: "gpio_level \<Rightarrow> bool" where
  "slide_switch_on level = (level = HIGH)"

definition pir_active :: "gpio_level \<Rightarrow> system \<Rightarrow> bool \<times> system" where
  "pir_active level s =
     (let val = (level = PIR_ACTIVE_LEVEL)
      in (val, s\<lparr>readings := (readings s)(''pir_active'' \<mapsto> Some (PyInt (if val then 1 else 0)))\<rparr>))"

definition motor_on :: "system \<Rightarrow> system" where
  "motor_on s = s\<lparr>motor_pin := HIGH, readings := (readings s)(''motor_on'' \<mapsto> Some (PyInt 1))\<rparr>"

definition motor_off :: "system \<Rightarrow> system" where
  "motor_off s = s\<lparr>motor_pin := LOW, readings := (readings s)(''motor_on'' \<mapsto> Some (PyInt 0))\<rparr>"

definition moisture_is_dry :: "gpio_level \<Rightarrow> system \<Rightarrow> bool \<times> system" where
  "moisture_is_dry level s =
     (let val = (level = MOISTURE_IS_DRY_LEVEL)
      in (val, s\<lparr>readings := (readings s)(''soil_dry'' \<mapsto> Some (PyInt (if val then 1 else 0)))\<rparr>))"

text \<open>
  The two polling loops on the echo pin leave the clock readings \<open>start\<close> and \<open>stop\<close>;
  they are the inputs here.
\<close>

definition read_ultrasonic_distance_cm :: "real \<Rightarrow> real \<Rightarrow> real" where
  "read_ultrasonic_distance_cm start stop =
     (let elapsed = stop - start;
          distance = (elapsed * 34300) / 2
      in distance)"

text \<open>
  The polling loops themselves. The levels that successive \<open>GPIO.input(ULTRA_ECHO)\<close> calls
  return and the readings that successive \<open>time.time()\<close> calls return are two lists,
  consumed in program order; \<open>None\<close>: the lists end before the loop does.
  \<open>echo_wait level timeout t\<close> is the loop
  \<open>while GPIO.input(ULTRA_ECHO) == level and time.time() < timeout: t = time.time()\<close>;
  the clock is not read when the test of the level fails. It returns the last value of
  \<open>t\<close> and what is left of the two lists.
\<close>

fun echo_wait ::
  "gpio_level \<Rightarrow> real \<Rightarrow> real \<Rightarrow> gpio_level list \<Rightarrow> real list
     \<Rightarrow> (real \<times> gpio_level list \<times> real list) option" where
  "echo_wait level timeout t [] clocks = None"
| "echo_wait level timeout t (l # levels) clocks =
     (if l = level then
        (case clocks of
           [] \<Rightarrow> None
         | c # clocks1 \<Rightarrow>
             if c < timeout then
               (case clocks1 of
                  [] \<Rightarrow> None
                | b # clocks2 \<Rightarrow> echo_wait level timeout b levels clocks2)
             else Some (t, levels, clocks1))
      else Some (t, levels, clocks))"

text \<open>
  The body of \<open>read_ultrasonic_distance_cm\<close> up to \<open>elapsed\<close>: the first clock reading is
  \<open>start\<close>, the first loop waits while the echo pin is low, the next clock reading is
  \<open>stop\<close>, the second loop waits while the pin is high; each loop gives up 20 ms after the
  reading it started from. The result is the pair \<open>(start, stop)\<close> that
  \<open>read_ultrasonic_distance_cm\<close> above turns into a distance.
\<close>

definition echo_clocks :: "gpio_level list \<Rightarrow> real list \<Rightarrow> (real \<times> real) option" where
  "echo_clocks levels clocks =
     (case clocks of
        [] \<Rightarrow> None
      | start0 # clocks0 \<Rightarrow>
          (case echo_wait LOW (start0 + 2 / 100) start0 levels clocks0 of
             None \<Rightarrow> None
           | Some (start, levels1, clocks1) \<Rightarrow>
               (case clocks1 of
                  [] \<Rightarrow> None
                | stop0 # clocks2 \<Rightarrow>
                    (case echo_wait HIGH (stop0 + 2 / 100) stop0 levels1 clocks2 of
                       None \<Rightarrow> None
                     | Some (stop, levels2, clocks3) \<Rightarrow> Some (start, stop)))))"

definition calc_water_height :: "real \<Rightarrow> real" where
  "calc_water_height distance = (let h = BEAKER_HEIGHT_CM - distance in max 0 (min BEAKER_HEIGHT_CM h))"

text \<open>
  \<open>dht\<close> is what \<open>Adafruit_DHT.read_retry\<close> does: it raises, or returns
  \<open>(humidity, temperature)\<close>, each possibly \<open>None\<close>.
\<close>

definition read_dht11_both ::
  "error + (real option \<times> real option) \<Rightarrow> error + (real option \<times> real option)" where
  "read_dht11_both dht =
     (case dht of
        Inl e \<Rightarrow> Inl e
      | Inr (humidity, temperature) \<Rightarrow>
          (case temperature of
             None \<Rightarrow> Inr (None, None)
           | Some t \<Rightarrow>
               if \<not> (TEMP_MIN_C \<le> t \<and> t \<le> TEMP_MAX_C) then Inr (None, None)
               else Inr (humidity, Some t)))"

definition check_and_drive_motor :: "gpio_level \<Rightarrow> system \<Rightarrow> system" where
  "check_and_drive_motor level s =
     (let (dry, s1) = moisture_is_dry level s
      in if dry then motor_on s1 else motor_off s1)"

definition everything_off :: "system \<Rightarrow> system" where
  "everything_off s = motor_off s"

text \<open>
  \<open>handle_keypress\<close>: key 1 measures the water level (\<open>echo\<close> is the GPIO failing or the
  two clock readings of the echo), key 2 the temperature; every exception is caught.
\<close>

definition handle_keypress ::
  "string \<Rightarrow> error + (real \<times> real) \<Rightarrow> error + (real option \<times> real option) \<Rightarrow> system \<Rightarrow> system" where
  "handle_keypress key echo dht s =
     (if key = ''1'' then
        (case echo of
           Inl e \<Rightarrow> s
         | Inr (start, stop) \<Rightarrow>
             let d = read_ultrasonic_distance_cm start stop
             in if d \<le> 0 then s
                else
                  let height = calc_water_height d
                  in s\<lparr>readings := (readings s)(''distance_cm'' \<mapsto> Some (PyFloat d),
                                                   ''water_height'' \<mapsto> Some (PyFloat height))\<rparr>)
      else if key = ''2'' then
        (case read_dht11_both dht of
           Inl e \<Rightarrow> s
         | Inr (h, t) \<Rightarrow>
             (case t of
                None \<Rightarrow> s
              | Some tv \<Rightarrow>
                  let s1 = s\<lparr>readings := (readings s)(''temp_c'' \<mapsto> Some (PyFloat tv))\<rparr>
                  in (case h of
                        None \<Rightarrow> s1
                      | Some hv \<Rightarrow> s1\<lparr>readings := (readings s1)(''humidity'' \<mapsto> Some (PyFloat hv))\<rparr>)))
      else s)"

subsection \<open>The sampling loop\<close>

text \<open>\<open>if alerts: alerts.maybe_send(key, state, msg)\<close>.\<close>

definition alerts_maybe_send ::
  "real \<Rightarrow> post_result \<Rightarrow> string \<Rightarrow> bool \<Rightarrow> alert_msg \<Rightarrow> system \<Rightarrow> system" where
  "alerts_maybe_send now post key state msg s =
     (case alerts s of
        None \<Rightarrow> s
      | Some g \<Rightarrow>
          let (msgs, g') = maybe_send now post key (Some state) msg g
          in s\<lparr>alerts := Some g', sent := sent s @ msgs\<rparr>)"

text \<open>
  What one iteration of \<open>sensors_thread\<close> reads from its environment, in source order. The
  moisture pin is read twice: once for \<open>was_dry\<close>, once inside \<open>check_and_drive_motor\<close>.
\<close>

record sensor_inputs =
  in_slide_switch :: gpio_level
  in_pir :: gpio_level
  in_echo :: "error + (real \<times> real)"
  in_water_now :: real
  in_water_post :: post_result
  in_moisture_first :: gpio_level
  in_moisture_second :: gpio_level
  in_soil_now :: real
  in_soil_post :: post_result
  in_now :: real
  in_dht :: "error + (real option \<times> real option)"

definition sensors_iteration :: "sensor_inputs \<Rightarrow> system \<Rightarrow> system" where
  "sensors_iteration inp s =
     (if \<not> slide_switch_on (in_slide_switch inp) then motor_off s
      else
        let (active, s1) = pir_active (in_pir inp) s;
            (distance, s2) =
              (case in_echo inp of
                 Inr (start, stop) \<Rightarrow>
                   (let d = read_ultrasonic_distance_cm start stop
                    in (d, s1\<lparr>last_distance_cm := Some d\<rparr>))
               | Inl e \<Rightarrow> (- 1, s1));
            s3 =
              (if distance > 0 then
                 (if distance > WATER_LOW_DISTANCE_CM
                  then alerts_maybe_send (in_water_now inp) (in_water_post inp)
                         ''water_low'' True (Water_LOW distance) s2
                  else alerts_maybe_send (in_water_now inp) (in_water_post inp)
                         ''water_low'' False Water_OK_again s2)
               else s2);
            height = calc_water_height (if distance > 0 then distance else BEAKER_HEIGHT_CM);
            (was_dry, s4) = moisture_is_dry (in_moisture_first inp) s3;
            s5 = check_and_drive_motor (in_moisture_second inp) s4;
            s6 = alerts_maybe_send (in_soil_now inp) (in_soil_post inp) ''soil_dry'' was_dry
                   (if was_dry then Soil_is_DRY else Soil_MOIST) s5;
            now = in_now inp;
            s7 =
              (if now - last_dht_time s6 \<ge> DHT_PERIOD then
                 (let s6a = s6\<lparr>last_dht_time := now\<rparr>;
                      (humidity, temperature) =
                        (case in_dht inp of Inr ht \<Rightarrow> ht | Inl e \<Rightarrow> (None, None))
                  in (case temperature of
                        None \<Rightarrow> s6a
                      | Some t \<Rightarrow>
                          if TEMP_MIN_C \<le> t \<and> t \<le> TEMP_MAX_C then
                            (let s6b = s6a\<lparr>readings := (readings s6a)(''temp_c'' \<mapsto> Some (PyFloat t))\<rparr>
                             in (case humidity of
                                   None \<Rightarrow> s6b
                                 | Some h \<Rightarrow>
                                     s6b\<lparr>readings := (readings s6b)(''humidity'' \<mapsto> Some (PyFloat h))\<rparr>))
                          else s6a))
               else s6)
        in s7\<lparr>readings := (readings s7)
                 (''distance_cm'' \<mapsto> (if distance > 0 then Some (PyFloat distance) else None),
                  ''water_height'' \<mapsto> Some (PyFloat height))\<rparr>)"

text \<open>
  The loop \<open>while not stop_event.is_set()\<close>: one input record for each iteration that runs
  before the stop event is set.
\<close>

fun sensors_thread :: "sensor_inputs list \<Rightarrow> system \<Rightarrow> system" where
  "sensors_thread [] s = s"
| "sensors_thread (inp # rest) s = sensors_thread rest (sensors_iteration inp s)"

text \<open>
  A temperature measurement that failed or is out of range: the driver raised, returned no
  temperature, or returned one outside \<open>[TEMP_MIN_C, TEMP_MAX_C]\<close>.
\<close>

definition dht_rejected :: "error + (real option \<times> real option) \<Rightarrow> bool" where
  "dht_rejected dht =
     (case dht of
        Inl e \<Rightarrow> True
      | Inr (humidity, temperature) \<Rightarrow>
          (case temperature of None \<Rightarrow> True | Some t \<Rightarrow> t < TEMP_MIN_C \<or> TEMP_MAX_C < t))"

text \<open>A distance measurement that failed or is not positive.\<close>

definition echo_failed :: "error + (real \<times> real) \<Rightarrow> bool" where
  "echo_failed echo =
     (case echo of
        Inl e \<Rightarrow> True
      | Inr (start, stop) \<Rightarrow> read_ultrasonic_distance_cm start stop \<le> 0)"

subsection \<open>Auxiliary definitions for the properties\<close>

text \<open>
  The gate's bookkeeping agrees with its log: the cooldown is the configured one and
  \<open>last_sent\<close> holds, for every key, the time of the last successful send in the log.
\<close>

definition gate_inv :: "int \<Rightarrow> 's alert_gate \<times> send_event list \<Rightarrow> bool" where
  "gate_inv cd gl \<longleftrightarrow>
     cooldown_sec (fst gl) = cd \<and> (\<forall>k. last_sent (fst gl) k = last_success k (snd gl))"

text \<open>A water-low state that toggles three times within half a minute.\<close>

definition toggles :: "bool gate_call list" where
  "toggles =
     [\<lparr>call_now = 1000, call_post = PostResponse True, call_key = ''water_low'', call_state = Some True\<rparr>,
      \<lparr>call_now = 1010, call_post = PostResponse True, call_key = ''water_low'', call_state = Some False\<rparr>,
      \<lparr>call_now = 1020, call_post = PostResponse True, call_key = ''water_low'', call_state = Some True\<rparr>]"

text \<open>
  The stages of one iteration of the sampling loop, named for the proofs: the value of
  \<open>distance\<close>, the water-level alert (source lines 311--322) and the periodic DHT refresh
  (source lines 334--347). Lemma \<open>sensors_iteration_on\<close> below shows that
  \<open>sensors_iteration\<close> is their composition.
\<close>

definition distance_of :: "sensor_inputs \<Rightarrow> real" where
  "distance_of inp =
     (case in_echo inp of
        Inr (start, stop) \<Rightarrow> read_ultrasonic_distance_cm start stop
      | Inl e \<Rightarrow> - 1)"

definition water_step :: "sensor_inputs \<Rightarrow> system \<Rightarrow> system" where
  "water_step inp s2 =
     (if distance_of inp > 0 then
        (if distance_of inp > WATER_LOW_DISTANCE_CM
         then alerts_maybe_send (in_water_now inp) (in_water_post inp)
                ''water_low'' True (Water_LOW (distance_of inp)) s2
         else alerts_maybe_send (in_water_now inp) (in_water_post inp)
                ''water_low'' False Water_OK_again s2)
      else s2)"

definition dht_step :: "sensor_inputs \<Rightarrow> system \<Rightarrow> system" where
  "dht_step inp s6 =
     (if in_now inp - last_dht_time s6 \<ge> DHT_PERIOD then
        (let s6a = s6\<lparr>last_dht_time := in_now inp\<rparr>;
             (humidity, temperature) =
               (case in_dht inp of Inr ht \<Rightarrow> ht | Inl e \<Rightarrow> (None, None))
         in (case temperature of
               None \<Rightarrow> s6a
             | Some t \<Rightarrow>
                 if TEMP_MIN_C \<le> t \<and> t \<le> TEMP_MAX_C then
                   (let s6b = s6a\<lparr>readings := (readings s6a)(''temp_c'' \<mapsto> Some (PyFloat t))\<rparr>
                    in (case humidity of
                          None \<Rightarrow> s6b
                        | Some h \<Rightarrow>
                            s6b\<lparr>readings := (readings s6b)(''humidity'' \<mapsto> Some (PyFloat h))\<rparr>))
                 else s6a))
      else s6)"

text \<open>
  Sample inputs of one iteration. \<open>sample_dry\<close>: switch on, an echo of 8 cm, dry soil, a DHT
  reading of 25 degrees, every clock reading 1000, Telegram answering. \<open>sample_echo_fail\<close>
  and \<open>sample_moist\<close> are the iteration one second later with the GPIO failing during the
  distance measurement, respectively with moist soil.
\<close>

definition sample_dry :: sensor_inputs where
  "sample_dry =
     \<lparr>in_slide_switch = HIGH, in_pir = HIGH, in_echo = Inr (0, 8 / 17150),
      in_water_now = 1000, in_water_post = PostResponse True,
      in_moisture_first = HIGH, in_moisture_second = HIGH,
      in_soil_now = 1000, in_soil_post = PostResponse True,
      in_now = 1000, in_dht = Inr (Some 40, Some 25)\<rparr>"

definition sample_echo_fail :: sensor_inputs where
  "sample_echo_fail =
     sample_dry\<lparr>in_echo := Inl Exception, in_water_now := 1001, in_soil_now := 1001, in_now := 1001\<rparr>"

definition sample_moist :: sensor_inputs where
  "sample_moist =
     sample_dry\<lparr>in_moisture_first := LOW, in_moisture_second := LOW,
                in_water_now := 1001, in_soil_now := 1001, in_now := 1001\<rparr>"

text \<open>
  The two calls of the gate in one iteration, on a gate \<open>g\<close>: the water-low call, made
  when \<open>distance > 0\<close>, and the soil call.
\<close>

definition water_call :: "sensor_inputs \<Rightarrow> bool alert_gate \<Rightarrow> alert_msg list \<times> bool alert_gate" where
  "water_call inp g =
     maybe_send (in_water_now inp) (in_water_post inp) ''water_low''
       (Some (distance_of inp > WATER_LOW_DISTANCE_CM))
       (if distance_of inp > WATER_LOW_DISTANCE_CM then Water_LOW (distance_of inp) else Water_OK_again) g"

definition soil_call :: "sensor_inputs \<Rightarrow> bool alert_gate \<Rightarrow> alert_msg list \<times> bool alert_gate" where
  "soil_call inp g =
     maybe_send (in_soil_now inp) (in_soil_post inp) ''soil_dry''
       (Some (in_moisture_first inp = MOISTURE_IS_DRY_LEVEL))
       (if in_moisture_first inp = MOISTURE_IS_DRY_LEVEL then Soil_is_DRY else Soil_MOIST) g"

text \<open>
  \<open>sample_timeout\<close>: a minute after \<open>sample_dry\<close> the echo never arrives; the first
  wait gives up and leaves two clock readings 0.2 ms apart. \<open>sample_split\<close>: at the same
  time the moisture pin reads moist for \<open>was_dry\<close> and dry inside
  \<open>check_and_drive_motor\<close>.
\<close>

definition sample_timeout :: sensor_inputs where
  "sample_timeout =
     sample_dry\<lparr>in_echo := Inr (10610199 / 10000, 10610201 / 10000),
                in_water_now := 1062, in_soil_now := 1062, in_now := 1062\<rparr>"

definition sample_split :: sensor_inputs where
  "sample_split =
     sample_dry\<lparr>in_moisture_first := LOW, in_water_now := 1062, in_soil_now := 1062, in_now := 1062\<rparr>"

section \<open>Properties of the alert gate\<close>

lemma maybe_send_cases:
  "maybe_send now post key state msg g =
     (if last_state_get g key \<noteq> state \<and> real_of_int (cooldown_sec g) \<le> now - last_sent_get g key
      then ([msg], \<lparr>cooldown_sec = cooldown_sec g,
                    last_sent = (if send post then (last_sent g)(key \<mapsto> now) else last_sent g),
                    last_state = (last_state g)(key \<mapsto> state)\<rparr>)
      else ([], g))"
  by (simp add: maybe_send_def Let_def not_less)

lemma cooldown_maybe_send:
  "cooldown_sec (snd (maybe_send now post key state msg g)) = cooldown_sec g"
  by (simp add: maybe_send_cases)

lemma last_state_get_maybe_send_other:
  "k \<noteq> key \<Longrightarrow> last_state_get (snd (maybe_send now post key state msg g)) k = last_state_get g k"
  by (simp add: maybe_send_cases last_state_get_def)

lemma last_sent_get_maybe_send_other:
  "k \<noteq> key \<Longrightarrow> last_sent_get (snd (maybe_send now post key state msg g)) k = last_sent_get g k"
  by (simp add: maybe_send_cases last_sent_get_def)

lemma maybe_send_entries_other:
  "k \<noteq> key \<Longrightarrow> last_state (snd (maybe_send now post key state msg g)) k = last_state g k"
  "k \<noteq> key \<Longrightarrow> last_sent (snd (maybe_send now post key state msg g)) k = last_sent g k"
  by (simp_all add: maybe_send_cases)

lemma last_success_snoc:
  "last_success k (es @ [e]) =
     (if ev_key e = k \<and> ev_ok e then Some (ev_time e) else last_success k es)"
  by (induction es) (auto split: option.splits)

lemma gate_inv_step: "gate_inv cd gl \<Longrightarrow> gate_inv cd (gate_step c gl)"
  by (auto simp add: gate_inv_def gate_step_def maybe_send_cases last_success_snoc)

lemma run_calls_snoc: "run_calls g (cs @ [c]) = gate_step c (run_calls g cs)"
  by (simp add: run_calls_def)

lemma gate_inv_run: "gate_inv cd (run_calls (AlertGate\<lparr>cooldown_sec := cd\<rparr>) cs)"
proof (induction cs rule: rev_induct)
  case Nil
  show ?case by (simp add: run_calls_def gate_inv_def AlertGate_def)
next
  case (snoc c cs)
  then show ?case by (simp add: run_calls_snoc gate_inv_step)
qed

lemma run_toggles:
  "run_calls (AlertGate\<lparr>cooldown_sec := 60\<rparr>) toggles =
     (\<lparr>cooldown_sec = 60, last_sent = [''water_low'' \<mapsto> 1000],
       last_state = [''water_low'' \<mapsto> Some True]\<rparr>,
      [\<lparr>ev_key = ''water_low'', ev_time = 1000, ev_ok = True\<rparr>])"
  by (simp add: run_calls_def toggles_def gate_step_def maybe_send_cases AlertGate_def
      last_state_get_def last_sent_get_def send_def)

text \<open>
  Claim C2. Take any history of calls on a gate created with cooldown \<open>cd\<close>, however the
  states toggled in it, and let \<open>t\<close> be the time of the last successful send for \<open>key\<close>
  in its log. A further call for \<open>key\<close> at a time \<open>now\<close> with \<open>now - t < cd\<close> hands
  nothing to Telegram; a further call with \<open>cd \<le> now - t\<close> whose state differs from
  \<open>last_state[key]\<close> hands its message to Telegram in that very call.
\<close>

theorem alert_gate_cooldown:
  assumes run: "run_calls (AlertGate\<lparr>cooldown_sec := cd\<rparr>) calls = (g, evs)"
      and last: "last_success key evs = Some t"
  shows "(now - t < real_of_int cd \<longrightarrow> fst (maybe_send now post key state msg g) = [])
       \<and> (real_of_int cd \<le> now - t \<and> state \<noteq> last_state_get g key \<longrightarrow>
            fst (maybe_send now post key state msg g) = [msg])"
proof -
  from gate_inv_run [of cd calls] run
  have cd: "cooldown_sec g = cd" and ls: "last_sent g key = last_success key evs"
    by (simp_all add: gate_inv_def)
  from ls last have "last_sent_get g key = t"
    by (simp add: last_sent_get_def)
  with cd show ?thesis
    by (auto simp add: maybe_send_cases)
qed

theorem alert_gate_cooldown_witness:
  "fst (maybe_send 1030 (PostResponse True) ''water_low'' (Some False) Water_OK_again
          (fst (run_calls (AlertGate\<lparr>cooldown_sec := 60\<rparr>) toggles))) = []
   \<and> fst (maybe_send 1060 (PostResponse True) ''water_low'' (Some False) Water_OK_again
          (fst (run_calls (AlertGate\<lparr>cooldown_sec := 60\<rparr>) toggles))) = [Water_OK_again]"
proof -
  have last: "last_success ''water_low'' [\<lparr>ev_key = ''water_low'', ev_time = 1000, ev_ok = True\<rparr>]
                = Some 1000"
    by simp
  have st: "Some False \<noteq> last_state_get \<lparr>cooldown_sec = 60, last_sent = [''water_low'' \<mapsto> 1000],
                 last_state = [''water_low'' \<mapsto> Some True]\<rparr> ''water_low''"
    by (simp add: last_state_get_def)
  from alert_gate_cooldown [OF run_toggles last, where now = 1030 and state = "Some False"
         and post = "PostResponse True" and msg = Water_OK_again]
       alert_gate_cooldown [OF run_toggles last, where now = 1060 and state = "Some False"
         and post = "PostResponse True" and msg = Water_OK_again] st
  show ?thesis by (simp add: run_toggles)
qed

text \<open>
  Claim C3, as stated, fails: a call whose state differs from \<open>last_state[key]\<close> but
  which falls inside the cooldown leaves \<open>last_state[key]\<close> as it was. After a successful
  send of \<open>True\<close> at time 100, the call with \<open>False\<close> at time 110 does not record
  \<open>False\<close>.
\<close>

theorem last_state_not_always_updated:
  "last_state_get
     (snd (maybe_send 110 (PostResponse True) ''soil_dry'' (Some False) Soil_MOIST
        (snd (maybe_send 100 (PostResponse True) ''soil_dry'' (Some True) Soil_is_DRY AlertGate))))
     ''soil_dry'' \<noteq> Some False"
  by (simp add: maybe_send_cases AlertGate_def last_state_get_def last_sent_get_def send_def)

text \<open>
  Claim C3, amended. After a call \<open>maybe_send(key, state, msg)\<close>, \<open>last_state[key]\<close> equals
  the state passed in, whether or not the send succeeded, except when the state differs from
  the recorded one and the call falls inside the cooldown: then no send is attempted and
  \<open>last_state[key]\<close> keeps its previous value.
\<close>

theorem last_state_after_maybe_send:
  "last_state_get (snd (maybe_send now post key state msg g)) key =
     (if last_state_get g key \<noteq> state \<and> now - last_sent_get g key < real_of_int (cooldown_sec g)
      then last_state_get g key else state)"
  by (simp add: maybe_send_cases last_state_get_def)

theorem last_state_after_maybe_send_witness:
  "last_state_get (snd (maybe_send 100 PostException ''soil_dry'' (Some True) Soil_is_DRY AlertGate))
     ''soil_dry'' = Some True"
  using last_state_after_maybe_send [of 100 PostException "''soil_dry''" "Some True" Soil_is_DRY AlertGate]
  by (simp add: AlertGate_def last_state_get_def last_sent_get_def)

text \<open>
  Claim C5, as stated, fails: the second of two calls with the same state does send when the
  first one was held back by the cooldown and the cooldown has run out in between. After a
  successful send of \<open>True\<close> at time 100, the call with \<open>False\<close> at time 130 sends
  nothing and the call with \<open>False\<close> at time 170 sends.
\<close>

theorem second_call_can_send:
  "fst (maybe_send 130 (PostResponse True) ''soil_dry'' (Some False) Soil_MOIST
         (snd (maybe_send 100 (PostResponse True) ''soil_dry'' (Some True) Soil_is_DRY AlertGate))) = []
   \<and> fst (maybe_send 170 (PostResponse True) ''soil_dry'' (Some False) Soil_MOIST
         (snd (maybe_send 130 (PostResponse True) ''soil_dry'' (Some False) Soil_MOIST
           (snd (maybe_send 100 (PostResponse True) ''soil_dry'' (Some True) Soil_is_DRY AlertGate)))))
       = [Soil_MOIST]"
  by (simp add: maybe_send_cases AlertGate_def last_state_get_def last_sent_get_def send_def)

text \<open>
  Claim C5, amended. Two successive calls with the same key and the same state hand at most
  one message to Telegram in total. If the first call attempted a send, the second sends
  nothing, whether that send succeeded or failed. The second call sends exactly when the
  state differs from the recorded one, the first call fell inside the cooldown and the
  second does not.
\<close>

theorem same_state_twice:
  "length (fst (maybe_send now1 post1 key state m1 g)
           @ fst (maybe_send now2 post2 key state m2 (snd (maybe_send now1 post1 key state m1 g)))) \<le> 1
   \<and> (fst (maybe_send now1 post1 key state m1 g) \<noteq> [] \<longrightarrow>
        fst (maybe_send now2 post2 key state m2 (snd (maybe_send now1 post1 key state m1 g))) = [])
   \<and> (fst (maybe_send now2 post2 key state m2 (snd (maybe_send now1 post1 key state m1 g))) \<noteq> [] \<longleftrightarrow>
        last_state_get g key \<noteq> state
        \<and> now1 - last_sent_get g key < real_of_int (cooldown_sec g)
        \<and> real_of_int (cooldown_sec g) \<le> now2 - last_sent_get g key)"
  by (auto simp add: maybe_send_cases last_state_get_def last_sent_get_def)

theorem same_state_twice_witness:
  "fst (maybe_send 100 PostException ''soil_dry'' (Some True) Soil_is_DRY AlertGate) \<noteq> []
   \<and> fst (maybe_send 101 (PostResponse True) ''soil_dry'' (Some True) Soil_is_DRY
          (snd (maybe_send 100 PostException ''soil_dry'' (Some True) Soil_is_DRY AlertGate))) = []"
proof -
  have first: "fst (maybe_send 100 PostException ''soil_dry'' (Some True) Soil_is_DRY AlertGate) \<noteq> []"
    by (simp add: maybe_send_cases AlertGate_def last_state_get_def last_sent_get_def)
  from same_state_twice [of 100 PostException "''soil_dry''" "Some True" Soil_is_DRY AlertGate
         101 "PostResponse True" Soil_is_DRY] first
  show ?thesis by blast
qed

section \<open>Properties of the telemetry client\<close>

lemma push_limited:
  "now - last_push c < real_of_int (min_interval_sec c) \<Longrightarrow>
     push now http kwargs c = \<lparr>returned = False, requested = None, client = c\<rparr>"
  by (simp add: push_def)

lemma push_min_interval:
  "min_interval_sec (client (push now http kwargs c)) = min_interval_sec c"
  by (simp add: push_def Let_def split: http_result.splits)

lemma push_returned_last:
  "returned (push now http kwargs c) \<Longrightarrow>
     last_push (client (push now http kwargs c)) = now
     \<and> real_of_int (min_interval_sec c) \<le> now - last_push c"
  by (simp add: push_def Let_def split: http_result.splits if_splits)

lemma push_last_mono:
  "0 \<le> min_interval_sec c \<Longrightarrow> last_push c \<le> last_push (client (push now http kwargs c))"
  by (simp add: push_def Let_def split: http_result.splits)

text \<open>An accepted call lies a full interval after the timestamp the history started with.\<close>

lemma push_all_after_last:
  "0 \<le> min_interval_sec c \<Longrightarrow> j < length calls \<Longrightarrow> fst (push_all c calls) ! j \<Longrightarrow>
     real_of_int (min_interval_sec c) \<le> fst (calls ! j) - last_push c"
proof (induction c calls arbitrary: j rule: push_all.induct)
  case (1 c)
  then show ?case by simp
next
  case (2 c now http kwargs rest)
  let ?c1 = "client (push now http kwargs c)"
  show ?case
  proof (cases j)
    case 0
    with "2.prems" show ?thesis
      by (simp add: Let_def split: prod.splits) (simp add: push_returned_last)
  next
    case (Suc i)
    with "2.prems" have i: "i < length rest" and acc: "fst (push_all ?c1 rest) ! i"
      by (simp_all add: Let_def split: prod.splits)
    from "2.prems"(1) have mi: "0 \<le> min_interval_sec ?c1" by (simp add: push_min_interval)
    from "2.IH" [OF refl mi i acc]
    have "real_of_int (min_interval_sec c) \<le> fst (rest ! i) - last_push ?c1"
      by (simp add: push_min_interval)
    moreover from "2.prems"(1) have "last_push c \<le> last_push ?c1" by (rule push_last_mono)
    ultimately show ?thesis using Suc by simp
  qed
qed

lemma push_all_spacing:
  "0 \<le> min_interval_sec c \<Longrightarrow> i < j \<Longrightarrow> j < length calls \<Longrightarrow>
   fst (push_all c calls) ! i \<Longrightarrow> fst (push_all c calls) ! j \<Longrightarrow>
     real_of_int (min_interval_sec c) \<le> fst (calls ! j) - fst (calls ! i)"
proof (induction c calls arbitrary: i j rule: push_all.induct)
  case (1 c)
  then show ?case by simp
next
  case (2 c now http kwargs rest)
  let ?c1 = "client (push now http kwargs c)"
  from "2.prems"(1) have mi: "0 \<le> min_interval_sec ?c1" by (simp add: push_min_interval)
  from "2.prems"(2) obtain j' where j: "j = Suc j'" by (cases j) simp_all
  with "2.prems" have j': "j' < length rest" and accj: "fst (push_all ?c1 rest) ! j'"
    by (simp_all add: Let_def split: prod.splits)
  show ?case
  proof (cases i)
    case 0
    with "2.prems" have r: "returned (push now http kwargs c)"
      by (simp add: Let_def split: prod.splits)
    from push_all_after_last [OF mi j' accj] push_returned_last [OF r]
    show ?thesis using 0 j by (simp add: push_min_interval)
  next
    case (Suc i')
    with "2.prems" j have "i' < j'" and acci: "fst (push_all ?c1 rest) ! i'"
      by (simp_all add: Let_def split: prod.splits)
    from "2.IH" [OF refl mi this(1) j' acci accj]
    show ?thesis using Suc j by (simp add: push_min_interval)
  qed
qed

text \<open>
  Claim C6. In any history of calls on a client with a non-negative minimum interval, two
  accepted pushes are at least \<open>min_interval_sec\<close> apart. On a fresh client with the
  default interval of 15, the calls of the example, 0, 5, 10 and 16 seconds after a first
  call at clock reading \<open>T\<close>, all answered successfully, are accepted at \<open>T\<close> and
  \<open>T + 16\<close> only; \<open>T\<close> is at least 15, as a fresh client has \<open>_last_push = 0.0\<close>. A
  call inside the minimum interval returns false, makes no request and leaves the client
  unchanged.
\<close>

theorem push_min_spacing:
  "(0 \<le> min_interval_sec c \<and> i < j \<and> j < length calls
      \<and> fst (push_all c calls) ! i \<and> fst (push_all c calls) ! j
      \<longrightarrow> real_of_int (min_interval_sec c) \<le> fst (calls ! j) - fst (calls ! i))
   \<and> (15 \<le> T \<longrightarrow>
        fst (push_all (ThingSpeakClient key)
              [(T, Response 200 True, ka), (T + 5, Response 200 True, kb),
               (T + 10, Response 200 True, kc), (T + 16, Response 200 True, kd)])
          = [True, False, False, True])
   \<and> (now - last_push c < real_of_int (min_interval_sec c) \<longrightarrow>
        push now http kwargs c = \<lparr>returned = False, requested = None, client = c\<rparr>)"
proof (intro conjI impI)
  assume "0 \<le> min_interval_sec c \<and> i < j \<and> j < length calls
      \<and> fst (push_all c calls) ! i \<and> fst (push_all c calls) ! j"
  then show "real_of_int (min_interval_sec c) \<le> fst (calls ! j) - fst (calls ! i)"
    using push_all_spacing [of c i j calls] by blast
next
  assume "15 \<le> T"
  then show "fst (push_all (ThingSpeakClient key)
              [(T, Response 200 True, ka), (T + 5, Response 200 True, kb),
               (T + 10, Response 200 True, kc), (T + 16, Response 200 True, kd)])
          = [True, False, False, True]"
    by (simp add: push_def ThingSpeakClient_def Let_def)
next
  assume "now - last_push c < real_of_int (min_interval_sec c)"
  then show "push now http kwargs c = \<lparr>returned = False, requested = None, client = c\<rparr>"
    by (rule push_limited)
qed

theorem push_min_spacing_witness:
  "fst (push_all (ThingSpeakClient ''KEY'')
         [(1700000000, Response 200 True, Map.empty :: string \<rightharpoonup> pyval option),
          (1700000005, Response 200 True, Map.empty),
          (1700000010, Response 200 True, Map.empty),
          (1700000016, Response 200 True, Map.empty)])
     = [True, False, False, True]
   \<and> real_of_int (min_interval_sec (ThingSpeakClient ''KEY'')) \<le> 1700000016 - 1700000000
   \<and> push 5 (Response 200 True) (Map.empty :: string \<rightharpoonup> pyval option) (ThingSpeakClient ''KEY'')
       = \<lparr>returned = False, requested = None, client = ThingSpeakClient ''KEY''\<rparr>"
proof -
  let ?calls = "[(1700000000, Response 200 True, Map.empty :: string \<rightharpoonup> pyval option),
          (1700000005, Response 200 True, Map.empty),
          (1700000010, Response 200 True, Map.empty),
          (1700000016, Response 200 True, Map.empty)]"
  note inst = push_min_spacing [where c = "ThingSpeakClient ''KEY''" and i = 0 and j = 3
      and calls = ?calls and T = 1700000000 and key = "''KEY''"
      and ka = "Map.empty :: string \<rightharpoonup> pyval option" and kb = "Map.empty :: string \<rightharpoonup> pyval option"
      and kc = "Map.empty :: string \<rightharpoonup> pyval option" and kd = "Map.empty :: string \<rightharpoonup> pyval option"
      and now = 5 and http = "Response 200 True" and kwargs = "Map.empty :: string \<rightharpoonup> pyval option"]
  have base: "(15::real) \<le> 1700000000" by simp
  from inst base have run: "fst (push_all (ThingSpeakClient ''KEY'') ?calls) = [True, False, False, True]"
    by simp
  have hyp: "0 \<le> min_interval_sec (ThingSpeakClient ''KEY'') \<and> (0::nat) < 3 \<and> 3 < length ?calls
      \<and> fst (push_all (ThingSpeakClient ''KEY'') ?calls) ! 0
      \<and> fst (push_all (ThingSpeakClient ''KEY'') ?calls) ! 3"
    unfolding run by (simp add: ThingSpeakClient_def)
  have lim: "5 - last_push (ThingSpeakClient ''KEY'') < real_of_int (min_interval_sec (ThingSpeakClient ''KEY''))"
    by (simp add: ThingSpeakClient_def)
  from inst hyp lim run show ?thesis by simp
qed

text \<open>
  Claim C10. Take a call that is not rate limited, so that the request is made. If the
  request completes, \<open>_last_push\<close> becomes the time of the call, also when the answer is a
  failure and the call returns false; every call less than \<open>min_interval_sec\<close> later is
  then dropped without a request. If the request raises a network exception, the call
  returns false and leaves the client unchanged, and a call at any later time makes a
  request again.
\<close>

theorem push_timestamp:
  "real_of_int (min_interval_sec c) \<le> now - last_push c \<longrightarrow>
     (last_push (client (push now (Response code digits) kwargs c)) = now
      \<and> (\<not> (code = 200 \<and> digits) \<longrightarrow> \<not> returned (push now (Response code digits) kwargs c))
      \<and> (now' - now < real_of_int (min_interval_sec c) \<longrightarrow>
           push now' http' kwargs' (client (push now (Response code digits) kwargs c))
             = \<lparr>returned = False, requested = None,
                client = client (push now (Response code digits) kwargs c)\<rparr>))
     \<and> (\<not> returned (push now RequestException kwargs c)
        \<and> client (push now RequestException kwargs c) = c
        \<and> (now \<le> now' \<longrightarrow>
             requested (push now' http' kwargs' (client (push now RequestException kwargs c))) \<noteq> None))"
  by (auto simp add: push_def Let_def split: http_result.splits)

theorem push_timestamp_witness:
  "last_push (client (push 1000 (Response 500 False) (Map.empty :: string \<rightharpoonup> pyval option)
                       (ThingSpeakClient ''KEY''))) = 1000
   \<and> \<not> returned (push 1000 (Response 500 False) (Map.empty :: string \<rightharpoonup> pyval option)
                    (ThingSpeakClient ''KEY''))
   \<and> requested (push 1005 (Response 200 True) (Map.empty :: string \<rightharpoonup> pyval option)
        (client (push 1000 (Response 500 False) (Map.empty :: string \<rightharpoonup> pyval option)
                       (ThingSpeakClient ''KEY'')))) = None
   \<and> requested (push 1005 (Response 200 True) (Map.empty :: string \<rightharpoonup> pyval option)
        (client (push 1000 RequestException (Map.empty :: string \<rightharpoonup> pyval option)
                       (ThingSpeakClient ''KEY'')))) \<noteq> None"
proof -
  have due: "real_of_int (min_interval_sec (ThingSpeakClient ''KEY'')) \<le> 1000 - last_push (ThingSpeakClient ''KEY'')"
    by (simp add: ThingSpeakClient_def)
  have near: "(1005::real) - 1000 < real_of_int (min_interval_sec (ThingSpeakClient ''KEY''))"
    by (simp add: ThingSpeakClient_def)
  have later: "(1000::real) \<le> 1005"
    by simp
  let ?c1 = "client (push 1000 (Response 500 False) (Map.empty :: string \<rightharpoonup> pyval option)
                       (ThingSpeakClient ''KEY''))"
  from push_timestamp [where c = "ThingSpeakClient ''KEY''" and now = 1000 and code = 500 and digits = False
        and kwargs = "Map.empty :: string \<rightharpoonup> pyval option" and now' = 1005
        and http' = "Response 200 True" and kwargs' = "Map.empty :: string \<rightharpoonup> pyval option"]
    due near later
  have facts: "last_push ?c1 = 1000
     \<and> \<not> returned (push 1000 (Response 500 False) (Map.empty :: string \<rightharpoonup> pyval option)
                    (ThingSpeakClient ''KEY''))
     \<and> push 1005 (Response 200 True) (Map.empty :: string \<rightharpoonup> pyval option) ?c1
         = \<lparr>returned = False, requested = None, client = ?c1\<rparr>
     \<and> requested (push 1005 (Response 200 True) (Map.empty :: string \<rightharpoonup> pyval option)
        (client (push 1000 RequestException (Map.empty :: string \<rightharpoonup> pyval option)
                       (ThingSpeakClient ''KEY'')))) \<noteq> None"
    by blast
  then have "requested (push 1005 (Response 200 True) (Map.empty :: string \<rightharpoonup> pyval option) ?c1) = None"
    by simp
  with facts show ?thesis by blast
qed

section \<open>Properties of the helpers\<close>

text \<open>
  Claim C7. For every distance \<open>d\<close> with \<open>0 < d \<le> BEAKER_HEIGHT_CM\<close> the water height is
  \<open>BEAKER_HEIGHT_CM - d\<close>; for every \<open>d > BEAKER_HEIGHT_CM\<close> it is 0; and it always lies
  in \<open>[0, BEAKER_HEIGHT_CM]\<close>.
\<close>

theorem water_height_clamped:
  "(0 < d \<and> d \<le> BEAKER_HEIGHT_CM \<longrightarrow> calc_water_height d = BEAKER_HEIGHT_CM - d)
   \<and> (BEAKER_HEIGHT_CM < d \<longrightarrow> calc_water_height d = 0)
   \<and> 0 \<le> calc_water_height d \<and> calc_water_height d \<le> BEAKER_HEIGHT_CM"
  by (simp add: calc_water_height_def BEAKER_HEIGHT_CM_def Let_def)

theorem water_height_clamped_witness:
  "calc_water_height 8 = 2 \<and> calc_water_height 12 = 0"
  using water_height_clamped [of 8] water_height_clamped [of 12] by (simp add: BEAKER_HEIGHT_CM_def)

text \<open>
  Claim C9. Setting the motor is idempotent and always writes the commanded state into the
  readings: after \<open>motor_on\<close>, once or twice, \<open>readings["motor_on"]\<close> is 1 and the pin is
  high; after \<open>motor_off\<close>, once or twice, it is 0 and the pin is low; and the last command
  wins.
\<close>

theorem motor_set_idempotent:
  "motor_on (motor_on s) = motor_on s
   \<and> readings (motor_on s) ''motor_on'' = Some (Some (PyInt 1))
   \<and> motor_pin (motor_on s) = HIGH
   \<and> motor_off (motor_off s) = motor_off s
   \<and> readings (motor_off s) ''motor_on'' = Some (Some (PyInt 0))
   \<and> motor_pin (motor_off s) = LOW
   \<and> readings (motor_on (motor_off s)) ''motor_on'' = Some (Some (PyInt 1))
   \<and> readings (motor_off (motor_on s)) ''motor_on'' = Some (Some (PyInt 0))"
  by (simp add: motor_on_def motor_off_def)

section \<open>Properties of the sampling loop\<close>

lemma alerts_maybe_send_fields:
  "readings (alerts_maybe_send now post key state msg s) = readings s"
  "motor_pin (alerts_maybe_send now post key state msg s) = motor_pin s"
  "last_dht_time (alerts_maybe_send now post key state msg s) = last_dht_time s"
  "last_distance_cm (alerts_maybe_send now post key state msg s) = last_distance_cm s"
  by (simp_all add: alerts_maybe_send_def split: option.splits prod.splits)

lemma alerts_maybe_send_sent:
  "sent (alerts_maybe_send now post key state msg s) =
     sent s @ (case alerts s of None \<Rightarrow> [] | Some g \<Rightarrow> fst (maybe_send now post key (Some state) msg g))"
  by (simp add: alerts_maybe_send_def split: option.splits prod.splits)

lemma alerts_maybe_send_alerts:
  "alerts (alerts_maybe_send now post key state msg s) =
     map_option (\<lambda>g. snd (maybe_send now post key (Some state) msg g)) (alerts s)"
  by (simp add: alerts_maybe_send_def split: option.splits prod.splits)


lemma pir_active_fields:
  "readings (snd (pir_active level s)) k =
     (if k = ''pir_active'' then Some (Some (PyInt (if level = LOW then 1 else 0))) else readings s k)"
  "motor_pin (snd (pir_active level s)) = motor_pin s"
  "alerts (snd (pir_active level s)) = alerts s"
  "sent (snd (pir_active level s)) = sent s"
  "last_dht_time (snd (pir_active level s)) = last_dht_time s"
  by (simp_all add: pir_active_def PIR_ACTIVE_LEVEL_def Let_def)

lemma moisture_is_dry_fields:
  "fst (moisture_is_dry level s) = (level = HIGH)"
  "readings (snd (moisture_is_dry level s)) k =
     (if k = ''soil_dry'' then Some (Some (PyInt (if level = HIGH then 1 else 0))) else readings s k)"
  "motor_pin (snd (moisture_is_dry level s)) = motor_pin s"
  "alerts (snd (moisture_is_dry level s)) = alerts s"
  "sent (snd (moisture_is_dry level s)) = sent s"
  "last_dht_time (snd (moisture_is_dry level s)) = last_dht_time s"
  by (simp_all add: moisture_is_dry_def MOISTURE_IS_DRY_LEVEL_def Let_def)

lemma check_and_drive_motor_fields:
  "motor_pin (check_and_drive_motor level s) = level"
  "readings (check_and_drive_motor level s) k =
     (if k = ''motor_on'' \<or> k = ''soil_dry'' then Some (Some (PyInt (if level = HIGH then 1 else 0)))
      else readings s k)"
  "alerts (check_and_drive_motor level s) = alerts s"
  "sent (check_and_drive_motor level s) = sent s"
  "last_dht_time (check_and_drive_motor level s) = last_dht_time s"
  by (cases level; simp add: check_and_drive_motor_def moisture_is_dry_def MOISTURE_IS_DRY_LEVEL_def
      motor_on_def motor_off_def Let_def)+

text \<open>With the switch on, one iteration is the composition of its stages.\<close>

lemma sensors_iteration_on:
  assumes "slide_switch_on (in_slide_switch inp)"
  shows "sensors_iteration inp s =
     (let s1 = snd (pir_active (in_pir inp) s);
          s2 = (case in_echo inp of Inr p \<Rightarrow> s1\<lparr>last_distance_cm := Some (distance_of inp)\<rparr> | Inl e \<Rightarrow> s1);
          s3 = water_step inp s2;
          s4 = snd (moisture_is_dry (in_moisture_first inp) s3);
          s5 = check_and_drive_motor (in_moisture_second inp) s4;
          s6 = alerts_maybe_send (in_soil_now inp) (in_soil_post inp) ''soil_dry''
                 (in_moisture_first inp = HIGH)
                 (if in_moisture_first inp = HIGH then Soil_is_DRY else Soil_MOIST) s5;
          s7 = dht_step inp s6
      in s7\<lparr>readings := (readings s7)
                 (''distance_cm'' \<mapsto> (if distance_of inp > 0 then Some (PyFloat (distance_of inp)) else None),
                  ''water_height'' \<mapsto> Some (PyFloat (calc_water_height
                      (if distance_of inp > 0 then distance_of inp else BEAKER_HEIGHT_CM))))\<rparr>)"
proof (cases "in_echo inp")
  case (Inl e)
  with assms show ?thesis
    unfolding sensors_iteration_def dht_step_def water_step_def distance_of_def
    by (simp add: Let_def split_def moisture_is_dry_fields(1) split del: if_split cong: if_cong option.case_cong)
next
  case (Inr p)
  with assms show ?thesis
    unfolding sensors_iteration_def dht_step_def water_step_def distance_of_def
    by (simp add: Let_def split_def moisture_is_dry_fields(1) split del: if_split cong: if_cong option.case_cong)
qed

lemma dht_step_fields:
  "motor_pin (dht_step inp s) = motor_pin s"
  "alerts (dht_step inp s) = alerts s"
  "sent (dht_step inp s) = sent s"
  "k \<noteq> ''temp_c'' \<Longrightarrow> k \<noteq> ''humidity'' \<Longrightarrow> readings (dht_step inp s) k = readings s k"
  by (simp_all add: dht_step_def Let_def split_def split: option.splits sum.splits)

lemma dht_step_rejected:
  "dht_rejected (in_dht inp) \<Longrightarrow> readings (dht_step inp s) = readings s"
  by (auto simp add: dht_step_def dht_rejected_def Let_def split: option.splits sum.splits)

lemma water_step_fields:
  "readings (water_step inp s) = readings s"
  "motor_pin (water_step inp s) = motor_pin s"
  "last_dht_time (water_step inp s) = last_dht_time s"
  by (simp_all add: water_step_def alerts_maybe_send_fields)

lemma water_step_failed: "\<not> 0 < distance_of inp \<Longrightarrow> water_step inp s = s"
  by (simp add: water_step_def)

lemma echo_failed_distance: "echo_failed (in_echo inp) \<Longrightarrow> \<not> 0 < distance_of inp"
  by (auto simp add: echo_failed_def distance_of_def split: sum.splits)

lemma echo_state_fields:
  "readings (case e of Inr p \<Rightarrow> s\<lparr>last_distance_cm := d\<rparr> | Inl x \<Rightarrow> s) = readings s"
  "motor_pin (case e of Inr p \<Rightarrow> s\<lparr>last_distance_cm := d\<rparr> | Inl x \<Rightarrow> s) = motor_pin s"
  "alerts (case e of Inr p \<Rightarrow> s\<lparr>last_distance_cm := d\<rparr> | Inl x \<Rightarrow> s) = alerts s"
  "sent (case e of Inr p \<Rightarrow> s\<lparr>last_distance_cm := d\<rparr> | Inl x \<Rightarrow> s) = sent s"
  by (simp_all split: sum.splits)

lemma water_step_sent:
  "\<exists>ws. sent (water_step inp s) = sent s @ ws \<and> Soil_MOIST \<notin> set ws"
  by (auto simp add: water_step_def alerts_maybe_send_sent maybe_send_cases split: option.splits)

lemma water_step_alerts:
  "alerts s = Some g \<Longrightarrow>
     \<exists>g'. alerts (water_step inp s) = Some g'
       \<and> cooldown_sec g' = cooldown_sec g
       \<and> last_state_get g' ''soil_dry'' = last_state_get g ''soil_dry''
       \<and> last_sent_get g' ''soil_dry'' = last_sent_get g ''soil_dry''"
  by (simp add: water_step_def alerts_maybe_send_alerts cooldown_maybe_send
      last_state_get_maybe_send_other last_sent_get_maybe_send_other)

lemma distance_sample_dry: "distance_of sample_dry = 8"
  by (simp add: distance_of_def sample_dry_def read_ultrasonic_distance_cm_def Let_def)

lemma sent_sample_dry:
  "sent (sensors_iteration sample_dry (boot (Some AlertGate))) = [Water_LOW 8, Soil_is_DRY]"
  "alerts (sensors_iteration sample_dry (boot (Some AlertGate))) =
     Some \<lparr>cooldown_sec = 60,
           last_sent = [''water_low'' \<mapsto> 1000, ''soil_dry'' \<mapsto> 1000],
           last_state = [''water_low'' \<mapsto> Some True, ''soil_dry'' \<mapsto> Some True]\<rparr>"
proof -
  have on1: "slide_switch_on (in_slide_switch sample_dry)"
    by (simp add: sample_dry_def slide_switch_on_def)
  have i: "in_moisture_first sample_dry = HIGH" "in_water_now sample_dry = 1000"
    "in_water_post sample_dry = PostResponse True" "in_soil_now sample_dry = 1000"
    "in_soil_post sample_dry = PostResponse True"
    by (simp_all add: sample_dry_def)
  show "sent (sensors_iteration sample_dry (boot (Some AlertGate))) = [Water_LOW 8, Soil_is_DRY]"
    by (simp add: sensors_iteration_on [OF on1] Let_def dht_step_fields alerts_maybe_send_sent
        alerts_maybe_send_alerts check_and_drive_motor_fields moisture_is_dry_fields
        water_step_def distance_sample_dry WATER_LOW_DISTANCE_CM_def echo_state_fields
        pir_active_fields i boot_def maybe_send_cases AlertGate_def last_state_get_def
        last_sent_get_def send_def)
  show "alerts (sensors_iteration sample_dry (boot (Some AlertGate))) =
     Some \<lparr>cooldown_sec = 60,
           last_sent = [''water_low'' \<mapsto> 1000, ''soil_dry'' \<mapsto> 1000],
           last_state = [''water_low'' \<mapsto> Some True, ''soil_dry'' \<mapsto> Some True]\<rparr>"
    by (simp add: sensors_iteration_on [OF on1] Let_def dht_step_fields alerts_maybe_send_sent
        alerts_maybe_send_alerts check_and_drive_motor_fields moisture_is_dry_fields
        water_step_def distance_sample_dry WATER_LOW_DISTANCE_CM_def echo_state_fields
        pir_active_fields i boot_def maybe_send_cases AlertGate_def last_state_get_def
        last_sent_get_def send_def)
qed

lemma sample_moist_inputs:
  "slide_switch_on (in_slide_switch sample_moist)"
  "in_moisture_first sample_moist = LOW"
  "in_moisture_second sample_moist = LOW"
  "in_soil_now sample_moist = 1001"
  by (simp_all add: sample_moist_def sample_dry_def slide_switch_on_def)

text \<open>
  Claim C1, as stated, fails: a failed distance measurement does not leave the stored values
  alone. After an iteration that measured 8 cm (water height 2 cm), an iteration whose
  measurement raises stores \<open>None\<close> as distance and 0 as water height.
\<close>

theorem failed_read_overwrites:
  "readings (sensors_thread [sample_dry] (boot None)) ''distance_cm'' = Some (Some (PyFloat 8))
   \<and> readings (sensors_thread [sample_dry] (boot None)) ''water_height'' = Some (Some (PyFloat 2))
   \<and> readings (sensors_thread [sample_dry, sample_echo_fail] (boot None)) ''distance_cm'' = Some None
   \<and> readings (sensors_thread [sample_dry, sample_echo_fail] (boot None)) ''water_height''
       = Some (Some (PyFloat 0))"
proof -
  have on1: "slide_switch_on (in_slide_switch sample_dry)"
    and on2: "slide_switch_on (in_slide_switch sample_echo_fail)"
    by (simp_all add: sample_dry_def sample_echo_fail_def slide_switch_on_def)
  have d2: "distance_of sample_echo_fail = - 1"
    by (simp add: distance_of_def sample_echo_fail_def)
  show ?thesis
    by (simp add: sensors_iteration_on [OF on1] sensors_iteration_on [OF on2] Let_def
        distance_sample_dry d2 calc_water_height_def BEAKER_HEIGHT_CM_def)
qed

lemma failed_read_branch:
  assumes on: "slide_switch_on (in_slide_switch inp)"
      and failed: "echo_failed (in_echo inp)"
  shows "readings (sensors_iteration inp s) ''distance_cm'' = Some None
       \<and> readings (sensors_iteration inp s) ''water_height'' = Some (Some (PyFloat 0))
       \<and> (\<exists>ms. sent (sensors_iteration inp s) = sent s @ ms \<and> set ms \<subseteq> {Soil_is_DRY, Soil_MOIST})
       \<and> map_option (\<lambda>g. (last_state g ''water_low'', last_sent g ''water_low''))
            (alerts (sensors_iteration inp s))
         = map_option (\<lambda>g. (last_state g ''water_low'', last_sent g ''water_low'')) (alerts s)"
proof -
  from failed have d: "\<not> 0 < distance_of inp" by (rule echo_failed_distance)
  have r1: "readings (sensors_iteration inp s) ''distance_cm'' = Some None"
    using on d by (simp add: sensors_iteration_on Let_def)
  have r2: "readings (sensors_iteration inp s) ''water_height'' = Some (Some (PyFloat 0))"
    using on d by (simp add: sensors_iteration_on Let_def calc_water_height_def BEAKER_HEIGHT_CM_def)
  have r3: "\<exists>ms. sent (sensors_iteration inp s) = sent s @ ms \<and> set ms \<subseteq> {Soil_is_DRY, Soil_MOIST}"
  proof -
    have "sent (sensors_iteration inp s) =
            sent s @ (case alerts s of
                        None \<Rightarrow> []
                      | Some g \<Rightarrow>
                          fst (maybe_send (in_soil_now inp) (in_soil_post inp) ''soil_dry''
                                 (Some (in_moisture_first inp = HIGH))
                                 (if in_moisture_first inp = HIGH then Soil_is_DRY else Soil_MOIST) g))"
      using on d
      by (simp add: sensors_iteration_on Let_def water_step_failed dht_step_fields
          alerts_maybe_send_sent check_and_drive_motor_fields moisture_is_dry_fields
          echo_state_fields pir_active_fields)
    then show ?thesis
      by (auto simp add: maybe_send_cases split: option.splits)
  qed
  have r4: "map_option (\<lambda>g. (last_state g ''water_low'', last_sent g ''water_low''))
            (alerts (sensors_iteration inp s))
         = map_option (\<lambda>g. (last_state g ''water_low'', last_sent g ''water_low'')) (alerts s)"
  proof -
    have "alerts (sensors_iteration inp s) =
            map_option (\<lambda>g. snd (maybe_send (in_soil_now inp) (in_soil_post inp) ''soil_dry''
                                 (Some (in_moisture_first inp = HIGH))
                                 (if in_moisture_first inp = HIGH then Soil_is_DRY else Soil_MOIST) g))
              (alerts s)"
      using on d
      by (simp add: sensors_iteration_on Let_def water_step_failed dht_step_fields
          alerts_maybe_send_alerts check_and_drive_motor_fields moisture_is_dry_fields
          echo_state_fields pir_active_fields)
    then show ?thesis
      by (cases "alerts s") (simp_all add: maybe_send_entries_other)
  qed
  from r1 r2 r3 r4 show ?thesis by blast
qed

lemma echo_wait_timeout:
  "\<forall>l\<in>set ls. l = lv \<Longrightarrow> k < length ls \<Longrightarrow> 2 * k < length cs \<Longrightarrow>
   \<forall>j<k. cs ! (2 * j) < timeout \<Longrightarrow> timeout \<le> cs ! (2 * k) \<Longrightarrow>
     echo_wait lv timeout t ls cs =
       Some (if k = 0 then t else cs ! (2 * k - 1), drop (Suc k) ls, drop (2 * k + 1) cs)"
proof (induction k arbitrary: t ls cs)
  case 0
  then obtain l ls' c cs' where "ls = l # ls'" "cs = c # cs'"
    by (cases ls; cases cs) auto
  with 0 show ?case by simp
next
  case (Suc k)
  then obtain l ls' where ls: "ls = l # ls'" by (cases ls) auto
  from Suc.prems obtain c b cs2 where cs: "cs = c # b # cs2"
    by (cases cs; cases "tl cs") auto
  from Suc.prems(4) have c: "c < timeout" using cs by (auto dest: spec [of _ 0])
  have a: "\<forall>l\<in>set ls'. l = lv" and l: "l = lv" using Suc.prems(1) ls by auto
  have b: "k < length ls'" using Suc.prems(2) ls by simp
  have d: "2 * k < length cs2" using Suc.prems(3) cs by simp
  have e: "\<forall>j<k. cs2 ! (2 * j) < timeout"
  proof (intro allI impI)
    fix j assume "j < k"
    then have "cs ! (2 * Suc j) < timeout" using Suc.prems(4) by auto
    then show "cs2 ! (2 * j) < timeout" using cs by simp
  qed
  have f: "timeout \<le> cs2 ! (2 * k)" using Suc.prems(5) cs by simp
  from Suc.IH [OF a b d e f, of b]
  have "echo_wait lv timeout b ls' cs2 =
          Some (if k = 0 then b else cs2 ! (2 * k - 1), drop (Suc k) ls', drop (2 * k + 1) cs2)" .
  moreover have "(if k = 0 then b else cs2 ! (2 * k - 1)) = cs ! (2 * Suc k - 1)"
    using cs by (cases k) simp_all
  ultimately show ?case using ls cs c l by simp
qed

lemma echo_clocks_low_timeout:
  assumes "\<forall>l\<in>set levels. l = LOW" "k + 1 < length levels" "2 * k + 2 < length clocks"
    "\<forall>j<k. clocks ! (2 * j + 1) < clocks ! 0 + 2 / 100"
    "clocks ! 0 + 2 / 100 \<le> clocks ! (2 * k + 1)"
  shows "echo_clocks levels clocks = Some (clocks ! (2 * k), clocks ! (2 * k + 2))"
proof -
  from assms(3) obtain c0 cs where clocks: "clocks = c0 # cs" by (cases clocks) auto
  have 1: "k < length levels" using assms(2) by simp
  have 2: "2 * k < length cs" using assms(3) clocks by simp
  have 3: "\<forall>j<k. cs ! (2 * j) < c0 + 2 / 100" using assms(4) clocks by simp
  have 4: "c0 + 2 / 100 \<le> cs ! (2 * k)" using assms(5) clocks by simp
  have w1: "echo_wait LOW (c0 + 2 / 100) c0 levels cs =
          Some (if k = 0 then c0 else cs ! (2 * k - 1), drop (Suc k) levels, drop (2 * k + 1) cs)"
    by (rule echo_wait_timeout [OF assms(1) 1 2 3 4])
  have st: "(if k = 0 then c0 else cs ! (2 * k - 1)) = clocks ! (2 * k)"
    using clocks by (cases k) simp_all
  from assms(3) clocks have "2 * k + 1 < length cs" by simp
  then have dc: "drop (2 * k + 1) cs = cs ! (2 * k + 1) # drop (2 * k + 2) cs"
    by (simp add: Cons_nth_drop_Suc)
  from assms(2) have dl: "drop (Suc k) levels = levels ! (Suc k) # drop (Suc (Suc k)) levels"
    by (simp add: Cons_nth_drop_Suc)
  have lv: "levels ! (Suc k) = LOW" using assms(1,2) by simp
  have "echo_clocks levels (c0 # cs) = Some (if k = 0 then c0 else cs ! (2 * k - 1), cs ! (2 * k + 1))"
    using w1 dc dl lv by (simp add: echo_clocks_def)
  then show ?thesis
    using st clocks by simp
qed

lemma echo_clocks_high_timeout:
  assumes "\<forall>l\<in>set levels. l = HIGH" "k + 1 < length levels" "2 * k + 2 < length clocks"
    "\<forall>j<k. clocks ! (2 * j + 2) < clocks ! 1 + 2 / 100"
    "clocks ! 1 + 2 / 100 \<le> clocks ! (2 * k + 2)"
  shows "echo_clocks levels clocks = Some (clocks ! 0, clocks ! (2 * k + 1))"
proof -
  from assms(3) obtain c0 c1 cs where clocks: "clocks = c0 # c1 # cs"
    by (cases clocks; cases "tl clocks") auto
  from assms(2) obtain l ls where levels: "levels = l # ls" by (cases levels) auto
  have l: "l = HIGH" and 0: "\<forall>l\<in>set ls. l = HIGH" using assms(1) levels by auto
  have 1: "k < length ls" using assms(2) levels by simp
  have 2: "2 * k < length cs" using assms(3) clocks by simp
  have 3: "\<forall>j<k. cs ! (2 * j) < c1 + 2 / 100" using assms(4) clocks by simp
  have 4: "c1 + 2 / 100 \<le> cs ! (2 * k)" using assms(5) clocks by simp
  have w2: "echo_wait HIGH (c1 + 2 / 100) c1 ls cs =
          Some (if k = 0 then c1 else cs ! (2 * k - 1), drop (Suc k) ls, drop (2 * k + 1) cs)"
    by (rule echo_wait_timeout [OF 0 1 2 3 4])
  have st: "(if k = 0 then c1 else cs ! (2 * k - 1)) = clocks ! (2 * k + 1)"
    using clocks by (cases k) simp_all
  have "echo_clocks (l # ls) (c0 # c1 # cs) = Some (c0, if k = 0 then c1 else cs ! (2 * k - 1))"
    using w2 l by (simp add: echo_clocks_def)
  then show ?thesis
    using st clocks levels by simp
qed

lemma water_step_positive:
  "0 < distance_of inp \<Longrightarrow> alerts s = Some g \<Longrightarrow>
     sent (water_step inp s) = sent s @ fst (water_call inp g)
     \<and> alerts (water_step inp s) = Some (snd (water_call inp g))"
  by (simp add: water_step_def water_call_def alerts_maybe_send_sent alerts_maybe_send_alerts)

lemma not_failed_distance: "\<not> echo_failed (in_echo inp) \<Longrightarrow> 0 < distance_of inp"
  by (auto simp add: echo_failed_def distance_of_def split: sum.splits)

lemma valid_read_effect:
  assumes on: "slide_switch_on (in_slide_switch inp)" and d: "0 < distance_of inp"
  shows "readings (sensors_iteration inp s) ''distance_cm'' = Some (Some (PyFloat (distance_of inp)))"
    and "readings (sensors_iteration inp s) ''water_height''
           = Some (Some (PyFloat (calc_water_height (distance_of inp))))"
    and "alerts s = Some g \<Longrightarrow>
           sent (sensors_iteration inp s)
             = sent s @ fst (water_call inp g) @ fst (soil_call inp (snd (water_call inp g)))
           \<and> alerts (sensors_iteration inp s) = Some (snd (soil_call inp (snd (water_call inp g))))"
proof -
  show "readings (sensors_iteration inp s) ''distance_cm'' = Some (Some (PyFloat (distance_of inp)))"
    using on d by (simp add: sensors_iteration_on Let_def)
  show "readings (sensors_iteration inp s) ''water_height''
           = Some (Some (PyFloat (calc_water_height (distance_of inp))))"
    using on d by (simp add: sensors_iteration_on Let_def)
  assume gate: "alerts s = Some g"
  let ?s2 = "case in_echo inp of
               Inr p \<Rightarrow> (snd (pir_active (in_pir inp) s))\<lparr>last_distance_cm := Some (distance_of inp)\<rparr>
             | Inl e \<Rightarrow> snd (pir_active (in_pir inp) s)"
  have a2: "alerts ?s2 = Some g" and t2: "sent ?s2 = sent s"
    using gate by (simp_all add: echo_state_fields pir_active_fields)
  from water_step_positive [OF d a2] t2
  have w: "sent (water_step inp ?s2) = sent s @ fst (water_call inp g)"
    "alerts (water_step inp ?s2) = Some (snd (water_call inp g))"
    by simp_all
  show "sent (sensors_iteration inp s)
             = sent s @ fst (water_call inp g) @ fst (soil_call inp (snd (water_call inp g)))
           \<and> alerts (sensors_iteration inp s) = Some (snd (soil_call inp (snd (water_call inp g))))"
    using on
    by (simp add: sensors_iteration_on Let_def dht_step_fields alerts_maybe_send_sent
        alerts_maybe_send_alerts check_and_drive_motor_fields moisture_is_dry_fields w
        soil_call_def MOISTURE_IS_DRY_LEVEL_def)
qed

lemma readings_sample_dry:
  "readings (sensors_iteration sample_dry (boot gate)) ''distance_cm'' = Some (Some (PyFloat 8))"
  "readings (sensors_iteration sample_dry (boot gate)) ''water_height'' = Some (Some (PyFloat 2))"
proof -
  have on1: "slide_switch_on (in_slide_switch sample_dry)"
    by (simp add: sample_dry_def slide_switch_on_def)
  show "readings (sensors_iteration sample_dry (boot gate)) ''distance_cm'' = Some (Some (PyFloat 8))"
    by (simp add: sensors_iteration_on [OF on1] Let_def distance_sample_dry)
  show "readings (sensors_iteration sample_dry (boot gate)) ''water_height'' = Some (Some (PyFloat 2))"
    by (simp add: sensors_iteration_on [OF on1] Let_def distance_sample_dry calc_water_height_def
        BEAKER_HEIGHT_CM_def)
qed

lemma sample_timeout_inputs:
  "slide_switch_on (in_slide_switch sample_timeout)"
  "in_echo sample_timeout = Inr (10610199 / 10000, 10610201 / 10000)"
  "distance_of sample_timeout = 343 / 100"
  "\<not> echo_failed (in_echo sample_timeout)"
  "in_water_now sample_timeout = 1062" "in_water_post sample_timeout = PostResponse True"
  "in_soil_now sample_timeout = 1062" "in_soil_post sample_timeout = PostResponse True"
  "in_moisture_first sample_timeout = HIGH"
  by (simp_all add: sample_timeout_def sample_dry_def slide_switch_on_def distance_of_def
      echo_failed_def read_ultrasonic_distance_cm_def Let_def)

text \<open>
  Claim C1, amended. In an iteration of the sampling loop (switch on):
  \<^item> when the distance measurement raises or returns \<open>d \<le> 0\<close>, no water-low alert is
    signalled (the only messages the iteration can send are the soil messages, and the
    gate's \<open>water_low\<close> entries are unchanged), and the stored values are not retained:
    \<open>distance_cm\<close> is set to \<open>None\<close> and \<open>water_height\<close> to 0;
  \<^item> when it returns \<open>d > 0\<close>, \<open>d\<close> and the water height computed from it are stored
    and \<open>water_low\<close> is signalled to the gate with the state \<open>d > 7\<close>, before the soil
    call;
  \<^item> a wait for the echo that ends on its 20 ms timeout is not reported as a failure. If
    the echo pin is low at every poll and the clock is found past the timeout at the
    \<open>k\<close>-th check, the measurement returns the clock reading taken just before that check
    as \<open>start\<close> and the one taken just after it as \<open>stop\<close>; if the pin is high at every
    poll, it returns the first clock reading as \<open>start\<close> and the one taken just before
    the check that found the timeout as \<open>stop\<close>. The iteration treats the resulting
    distance by its sign, as above.
\<close>

theorem failed_read_effect:
  assumes on: "slide_switch_on (in_slide_switch inp)"
  shows "(echo_failed (in_echo inp) \<longrightarrow>
            readings (sensors_iteration inp s) ''distance_cm'' = Some None
          \<and> readings (sensors_iteration inp s) ''water_height'' = Some (Some (PyFloat 0))
          \<and> (\<exists>ms. sent (sensors_iteration inp s) = sent s @ ms \<and> set ms \<subseteq> {Soil_is_DRY, Soil_MOIST})
          \<and> map_option (\<lambda>g. (last_state g ''water_low'', last_sent g ''water_low''))
               (alerts (sensors_iteration inp s))
            = map_option (\<lambda>g. (last_state g ''water_low'', last_sent g ''water_low'')) (alerts s))
       \<and> (\<not> echo_failed (in_echo inp) \<longrightarrow>
            readings (sensors_iteration inp s) ''distance_cm'' = Some (Some (PyFloat (distance_of inp)))
          \<and> readings (sensors_iteration inp s) ''water_height''
              = Some (Some (PyFloat (calc_water_height (distance_of inp))))
          \<and> (\<forall>g. alerts s = Some g \<longrightarrow>
                sent (sensors_iteration inp s)
                  = sent s @ fst (water_call inp g) @ fst (soil_call inp (snd (water_call inp g)))
                \<and> alerts (sensors_iteration inp s)
                  = Some (snd (soil_call inp (snd (water_call inp g))))))
       \<and> ((\<forall>l\<in>set levels. l = LOW) \<and> k + 1 < length levels \<and> 2 * k + 2 < length clocks
            \<and> (\<forall>j<k. clocks ! (2 * j + 1) < clocks ! 0 + 2 / 100)
            \<and> clocks ! 0 + 2 / 100 \<le> clocks ! (2 * k + 1) \<longrightarrow>
            echo_clocks levels clocks = Some (clocks ! (2 * k), clocks ! (2 * k + 2)))
       \<and> ((\<forall>l\<in>set levels. l = HIGH) \<and> k + 1 < length levels \<and> 2 * k + 2 < length clocks
            \<and> (\<forall>j<k. clocks ! (2 * j + 2) < clocks ! 1 + 2 / 100)
            \<and> clocks ! 1 + 2 / 100 \<le> clocks ! (2 * k + 2) \<longrightarrow>
            echo_clocks levels clocks = Some (clocks ! 0, clocks ! (2 * k + 1)))"
proof (intro conjI impI allI)
  assume failed: "echo_failed (in_echo inp)"
  note a = failed_read_branch [OF on failed, of s]
  from a show "readings (sensors_iteration inp s) ''distance_cm'' = Some None" by blast
  from a show "readings (sensors_iteration inp s) ''water_height'' = Some (Some (PyFloat 0))" by blast
  from a show "\<exists>ms. sent (sensors_iteration inp s) = sent s @ ms \<and> set ms \<subseteq> {Soil_is_DRY, Soil_MOIST}"
    by blast
  from a show "map_option (\<lambda>g. (last_state g ''water_low'', last_sent g ''water_low''))
               (alerts (sensors_iteration inp s))
            = map_option (\<lambda>g. (last_state g ''water_low'', last_sent g ''water_low'')) (alerts s)"
    by blast
next
  assume "\<not> echo_failed (in_echo inp)"
  then have d: "0 < distance_of inp" by (rule not_failed_distance)
  show "readings (sensors_iteration inp s) ''distance_cm'' = Some (Some (PyFloat (distance_of inp)))"
    by (rule valid_read_effect(1) [OF on d])
  show "readings (sensors_iteration inp s) ''water_height''
              = Some (Some (PyFloat (calc_water_height (distance_of inp))))"
    by (rule valid_read_effect(2) [OF on d])
  fix g assume gate: "alerts s = Some g"
  from valid_read_effect(3) [OF on d gate]
  show "sent (sensors_iteration inp s)
                  = sent s @ fst (water_call inp g) @ fst (soil_call inp (snd (water_call inp g)))"
    and "alerts (sensors_iteration inp s)
                  = Some (snd (soil_call inp (snd (water_call inp g))))"
    by blast+
next
  assume "(\<forall>l\<in>set levels. l = LOW) \<and> k + 1 < length levels \<and> 2 * k + 2 < length clocks
            \<and> (\<forall>j<k. clocks ! (2 * j + 1) < clocks ! 0 + 2 / 100)
            \<and> clocks ! 0 + 2 / 100 \<le> clocks ! (2 * k + 1)"
  then show "echo_clocks levels clocks = Some (clocks ! (2 * k), clocks ! (2 * k + 2))"
    using echo_clocks_low_timeout [of levels k clocks] by blast
next
  assume "(\<forall>l\<in>set levels. l = HIGH) \<and> k + 1 < length levels \<and> 2 * k + 2 < length clocks
            \<and> (\<forall>j<k. clocks ! (2 * j + 2) < clocks ! 1 + 2 / 100)
            \<and> clocks ! 1 + 2 / 100 \<le> clocks ! (2 * k + 2)"
  then show "echo_clocks levels clocks = Some (clocks ! 0, clocks ! (2 * k + 1))"
    using echo_clocks_high_timeout [of levels k clocks] by blast
qed

theorem failed_read_effect_witness:
  "readings (sensors_iteration sample_dry (boot (Some AlertGate))) ''distance_cm'' = Some (Some (PyFloat 8))
   \<and> readings (sensors_iteration sample_echo_fail (sensors_iteration sample_dry (boot (Some AlertGate))))
       ''distance_cm'' = Some None
   \<and> readings (sensors_iteration sample_echo_fail (sensors_iteration sample_dry (boot (Some AlertGate))))
       ''water_height'' = Some (Some (PyFloat 0))
   \<and> (\<exists>ms. sent (sensors_iteration sample_echo_fail (sensors_iteration sample_dry (boot (Some AlertGate))))
            = [Water_LOW 8, Soil_is_DRY] @ ms \<and> set ms \<subseteq> {Soil_is_DRY, Soil_MOIST})
   \<and> map_option (\<lambda>g. (last_state g ''water_low'', last_sent g ''water_low''))
        (alerts (sensors_iteration sample_echo_fail (sensors_iteration sample_dry (boot (Some AlertGate)))))
       = Some (Some (Some True), Some 1000)
   \<and> echo_clocks [LOW, LOW, LOW]
        [1061, 10610198 / 10000, 10610199 / 10000, 10610200 / 10000, 10610201 / 10000]
       = Some (10610199 / 10000, 10610201 / 10000)
   \<and> in_echo sample_timeout = Inr (10610199 / 10000, 10610201 / 10000)
   \<and> readings (sensors_iteration sample_timeout (sensors_iteration sample_dry (boot (Some AlertGate))))
       ''distance_cm'' = Some (Some (PyFloat (343 / 100)))
   \<and> sent (sensors_iteration sample_timeout (sensors_iteration sample_dry (boot (Some AlertGate))))
       = [Water_LOW 8, Soil_is_DRY, Water_OK_again]
   \<and> echo_clocks [HIGH, HIGH, HIGH] [2000, 2000001 / 1000, 200001 / 100, 20000105 / 10000, 20000215 / 10000]
       = Some (2000, 20000105 / 10000)"
proof -
  let ?s1 = "sensors_iteration sample_dry (boot (Some AlertGate))"
  let ?g1 = "\<lparr>cooldown_sec = 60,
           last_sent = [''water_low'' \<mapsto> 1000, ''soil_dry'' \<mapsto> 1000],
           last_state = [''water_low'' \<mapsto> Some True, ''soil_dry'' \<mapsto> Some (True::bool)]\<rparr>"
  have on: "slide_switch_on (in_slide_switch sample_echo_fail)"
    by (simp add: sample_dry_def sample_echo_fail_def slide_switch_on_def)
  have failed: "echo_failed (in_echo sample_echo_fail)"
    by (simp add: sample_echo_fail_def echo_failed_def)
  from failed_read_effect [OF on, of ?s1] failed
  have a: "readings (sensors_iteration sample_echo_fail ?s1) ''distance_cm'' = Some None"
    "readings (sensors_iteration sample_echo_fail ?s1) ''water_height'' = Some (Some (PyFloat 0))"
    "\<exists>ms. sent (sensors_iteration sample_echo_fail ?s1) = sent ?s1 @ ms \<and> set ms \<subseteq> {Soil_is_DRY, Soil_MOIST}"
    "map_option (\<lambda>g. (last_state g ''water_low'', last_sent g ''water_low''))
        (alerts (sensors_iteration sample_echo_fail ?s1))
       = map_option (\<lambda>g. (last_state g ''water_low'', last_sent g ''water_low'')) (alerts ?s1)"
    by blast+
  from failed_read_effect [OF sample_timeout_inputs(1), of ?s1] sample_timeout_inputs(4)
       sent_sample_dry(2)
  have b: "readings (sensors_iteration sample_timeout ?s1) ''distance_cm''
             = Some (Some (PyFloat (distance_of sample_timeout)))"
    "sent (sensors_iteration sample_timeout ?s1)
       = sent ?s1 @ fst (water_call sample_timeout ?g1)
           @ fst (soil_call sample_timeout (snd (water_call sample_timeout ?g1)))"
    by blast+
  have w: "water_call sample_timeout ?g1 =
             ([Water_OK_again],
              \<lparr>cooldown_sec = 60,
               last_sent = [''water_low'' \<mapsto> 1062, ''soil_dry'' \<mapsto> 1000],
               last_state = [''water_low'' \<mapsto> Some False, ''soil_dry'' \<mapsto> Some True]\<rparr>)"
    by (simp add: water_call_def sample_timeout_inputs WATER_LOW_DISTANCE_CM_def maybe_send_cases
        last_state_get_def last_sent_get_def send_def fun_upd_twist)
  have so: "fst (soil_call sample_timeout (snd (water_call sample_timeout ?g1))) = []"
    by (simp add: w soil_call_def sample_timeout_inputs MOISTURE_IS_DRY_LEVEL_def maybe_send_cases
        last_state_get_def last_sent_get_def)
  have c1: "echo_clocks [LOW, LOW, LOW]
        [1061, 10610198 / 10000, 10610199 / 10000, 10610200 / 10000, 10610201 / 10000]
       = Some (10610199 / 10000, 10610201 / 10000)"
    using failed_read_effect [OF on, where levels = "[LOW, LOW, LOW]" and k = 1
        and clocks = "[1061, 10610198 / 10000, 10610199 / 10000, 10610200 / 10000, 10610201 / 10000]"]
    by simp
  have c2: "echo_clocks [HIGH, HIGH, HIGH]
        [2000, 2000001 / 1000, 200001 / 100, 20000105 / 10000, 20000215 / 10000]
       = Some (2000, 20000105 / 10000)"
    using failed_read_effect [OF on, where levels = "[HIGH, HIGH, HIGH]" and k = 1
        and clocks = "[2000, 2000001 / 1000, 200001 / 100, 20000105 / 10000, 20000215 / 10000]"]
    by simp
  have b2: "sent (sensors_iteration sample_timeout ?s1) = [Water_LOW 8, Soil_is_DRY, Water_OK_again]"
    unfolding b(2) so by (simp add: w sent_sample_dry)
  show ?thesis
    using a b(1) b2 c1 c2
    by (simp add: sent_sample_dry readings_sample_dry sample_timeout_inputs)
qed

text \<open>
  Claim C4, as stated, fails: the cooldown does matter. An iteration with dry soil at time
  1000 sends the soil-dry alert; the iteration at time 1001 with moist soil turns the motor
  off and sends nothing.
\<close>

theorem moist_flip_in_cooldown_silent:
  "motor_pin (sensors_thread [sample_dry, sample_moist] (boot (Some AlertGate))) = LOW
   \<and> sent (sensors_thread [sample_dry] (boot (Some AlertGate))) = [Water_LOW 8, Soil_is_DRY]
   \<and> sent (sensors_thread [sample_dry, sample_moist] (boot (Some AlertGate))) = [Water_LOW 8, Soil_is_DRY]"
proof -
  have d: "distance_of sample_moist = 8"
    by (simp add: distance_of_def sample_moist_def sample_dry_def read_ultrasonic_distance_cm_def Let_def)
  have i: "in_water_now sample_moist = 1001" "in_water_post sample_moist = PostResponse True"
    "in_soil_post sample_moist = PostResponse True"
    by (simp_all add: sample_moist_def sample_dry_def)
  show ?thesis
    by (simp add: sensors_iteration_on [OF sample_moist_inputs(1)] Let_def dht_step_fields
        alerts_maybe_send_sent alerts_maybe_send_alerts alerts_maybe_send_fields
        check_and_drive_motor_fields moisture_is_dry_fields
        water_step_def d WATER_LOW_DISTANCE_CM_def echo_state_fields
        pir_active_fields i sample_moist_inputs sent_sample_dry maybe_send_cases last_state_get_def
        last_sent_get_def send_def)
qed

lemma sample_split_inputs:
  "slide_switch_on (in_slide_switch sample_split)"
  "in_moisture_first sample_split = LOW"
  "in_moisture_second sample_split = HIGH"
  "in_soil_now sample_split = 1062"
  by (simp_all add: sample_split_def sample_dry_def slide_switch_on_def)

text \<open>
  Claim C4, amended. An iteration (switch on, alerts configured) reads the moisture pin
  twice. The actuator follows the read inside \<open>check_and_drive_motor\<close>: it is commanded
  off, and \<open>readings["motor_on"]\<close> set to 0, when that read says moist, and commanded on
  when it says dry. The notification follows the earlier read, \<open>was_dry\<close>: when that read
  says moist, the soil-moist notification is sent in that iteration exactly when the
  gate's recorded \<open>soil_dry\<close> state is not already \<open>False\<close> and at least
  \<open>cooldown_sec\<close> have passed since the last successful \<open>soil_dry\<close> send; inside the
  cooldown nothing is sent.
\<close>

theorem moist_flip_effect:
  assumes on: "slide_switch_on (in_slide_switch inp)"
      and gate: "alerts s = Some g"
  shows "motor_pin (sensors_iteration inp s)
           = (if in_moisture_second inp = MOISTURE_IS_DRY_LEVEL then HIGH else LOW)
       \<and> readings (sensors_iteration inp s) ''motor_on''
           = Some (Some (PyInt (if in_moisture_second inp = MOISTURE_IS_DRY_LEVEL then 1 else 0)))
       \<and> (in_moisture_first inp \<noteq> MOISTURE_IS_DRY_LEVEL \<longrightarrow>
            (Soil_MOIST \<in> set (drop (length (sent s)) (sent (sensors_iteration inp s))) \<longleftrightarrow>
               last_state_get g ''soil_dry'' \<noteq> Some False
               \<and> real_of_int (cooldown_sec g) \<le> in_soil_now inp - last_sent_get g ''soil_dry''))"
proof -
  let ?s2 = "case in_echo inp of
               Inr p \<Rightarrow> (snd (pir_active (in_pir inp) s))\<lparr>last_distance_cm := Some (distance_of inp)\<rparr>
             | Inl e \<Rightarrow> snd (pir_active (in_pir inp) s)"
  have a2: "alerts ?s2 = Some g" and t2: "sent ?s2 = sent s"
    using gate by (simp_all add: echo_state_fields pir_active_fields)
  from water_step_sent [of inp ?s2] t2
  obtain ws where ws: "sent (water_step inp ?s2) = sent s @ ws" and nws: "Soil_MOIST \<notin> set ws"
    by auto
  from water_step_alerts [OF a2, of inp]
  obtain g' where g': "alerts (water_step inp ?s2) = Some g'"
      and cd: "cooldown_sec g' = cooldown_sec g"
      and ls: "last_state_get g' ''soil_dry'' = last_state_get g ''soil_dry''"
      and lt: "last_sent_get g' ''soil_dry'' = last_sent_get g ''soil_dry''"
    by blast
  have p: "motor_pin (sensors_iteration inp s)
             = (if in_moisture_second inp = MOISTURE_IS_DRY_LEVEL then HIGH else LOW)"
    using on
    by (cases "in_moisture_second inp")
       (simp_all add: sensors_iteration_on Let_def dht_step_fields alerts_maybe_send_fields
          check_and_drive_motor_fields MOISTURE_IS_DRY_LEVEL_def)
  have r: "readings (sensors_iteration inp s) ''motor_on''
             = Some (Some (PyInt (if in_moisture_second inp = MOISTURE_IS_DRY_LEVEL then 1 else 0)))"
    using on by (simp add: sensors_iteration_on Let_def dht_step_fields alerts_maybe_send_fields
        check_and_drive_motor_fields MOISTURE_IS_DRY_LEVEL_def)
  have m: "Soil_MOIST \<in> set (drop (length (sent s)) (sent (sensors_iteration inp s))) \<longleftrightarrow>
               last_state_get g ''soil_dry'' \<noteq> Some False
               \<and> real_of_int (cooldown_sec g) \<le> in_soil_now inp - last_sent_get g ''soil_dry''"
    if m1: "in_moisture_first inp \<noteq> MOISTURE_IS_DRY_LEVEL"
  proof -
    from m1 have low: "in_moisture_first inp \<noteq> HIGH" by (simp add: MOISTURE_IS_DRY_LEVEL_def)
    have "sent (sensors_iteration inp s) =
          sent s @ ws @ fst (maybe_send (in_soil_now inp) (in_soil_post inp) ''soil_dry'' (Some False) Soil_MOIST g')"
      using on low by (simp add: sensors_iteration_on Let_def dht_step_fields alerts_maybe_send_sent
          check_and_drive_motor_fields moisture_is_dry_fields ws g')
    then have "Soil_MOIST \<in> set (drop (length (sent s)) (sent (sensors_iteration inp s))) \<longleftrightarrow>
               fst (maybe_send (in_soil_now inp) (in_soil_post inp) ''soil_dry'' (Some False) Soil_MOIST g') \<noteq> []"
      using nws by (auto simp add: maybe_send_cases)
    also have "\<dots> \<longleftrightarrow> last_state_get g ''soil_dry'' \<noteq> Some False
            \<and> real_of_int (cooldown_sec g) \<le> in_soil_now inp - last_sent_get g ''soil_dry''"
      by (simp add: maybe_send_cases cd ls lt)
    finally show ?thesis .
  qed
  from p r m show ?thesis by blast
qed

theorem moist_flip_effect_witness:
  "motor_pin (sensors_thread [sample_dry, sample_moist] (boot (Some AlertGate))) = LOW
   \<and> readings (sensors_thread [sample_dry, sample_moist] (boot (Some AlertGate))) ''motor_on''
       = Some (Some (PyInt 0))
   \<and> Soil_MOIST \<notin> set (drop (length (sent (sensors_thread [sample_dry] (boot (Some AlertGate)))))
                          (sent (sensors_thread [sample_dry, sample_moist] (boot (Some AlertGate)))))
   \<and> motor_pin (sensors_thread [sample_dry, sample_split] (boot (Some AlertGate))) = HIGH
   \<and> readings (sensors_thread [sample_dry, sample_split] (boot (Some AlertGate))) ''motor_on''
       = Some (Some (PyInt 1))
   \<and> Soil_MOIST \<in> set (drop (length (sent (sensors_thread [sample_dry] (boot (Some AlertGate)))))
                          (sent (sensors_thread [sample_dry, sample_split] (boot (Some AlertGate)))))"
  using moist_flip_effect [OF sample_moist_inputs(1) sent_sample_dry(2)]
        moist_flip_effect [OF sample_split_inputs(1) sent_sample_dry(2)]
  by (simp add: sample_moist_inputs sample_split_inputs MOISTURE_IS_DRY_LEVEL_def
      last_state_get_def last_sent_get_def)

text \<open>
  Claim C8. When the temperature measurement raises, returns no temperature or returns one
  outside \<open>[-20, 80]\<close>, an iteration of the sampling loop leaves \<open>readings["temp_c"]\<close> and
  \<open>readings["humidity"]\<close> as they were, and the loop goes on with the next iteration. The
  keypad path does the same: \<open>read_dht11_both\<close> yields no values (or the exception, which
  \<open>handle_keypress\<close> catches) and key 2 leaves the state unchanged.
\<close>

theorem rejected_temperature_keeps_values:
  "dht_rejected (in_dht inp) \<longrightarrow>
     readings (sensors_iteration inp s) ''temp_c'' = readings s ''temp_c''
     \<and> readings (sensors_iteration inp s) ''humidity'' = readings s ''humidity''
     \<and> sensors_thread (inp # rest) s = sensors_thread rest (sensors_iteration inp s)
     \<and> (case read_dht11_both (in_dht inp) of Inl e \<Rightarrow> True | Inr ht \<Rightarrow> ht = (None, None))
     \<and> handle_keypress ''2'' echo (in_dht inp) s = s"
proof (intro impI conjI)
  assume rej: "dht_rejected (in_dht inp)"
  show "readings (sensors_iteration inp s) ''temp_c'' = readings s ''temp_c''"
  proof (cases "slide_switch_on (in_slide_switch inp)")
    case True
    then show ?thesis
      by (simp add: sensors_iteration_on Let_def dht_step_rejected [OF rej] alerts_maybe_send_fields
          check_and_drive_motor_fields moisture_is_dry_fields water_step_fields echo_state_fields
          pir_active_fields)
  next
    case False
    then show ?thesis by (simp add: sensors_iteration_def motor_off_def)
  qed
  show "readings (sensors_iteration inp s) ''humidity'' = readings s ''humidity''"
  proof (cases "slide_switch_on (in_slide_switch inp)")
    case True
    then show ?thesis
      by (simp add: sensors_iteration_on Let_def dht_step_rejected [OF rej] alerts_maybe_send_fields
          check_and_drive_motor_fields moisture_is_dry_fields water_step_fields echo_state_fields
          pir_active_fields)
  next
    case False
    then show ?thesis by (simp add: sensors_iteration_def motor_off_def)
  qed
  show "sensors_thread (inp # rest) s = sensors_thread rest (sensors_iteration inp s)"
    by simp
  from rej show "case read_dht11_both (in_dht inp) of Inl e \<Rightarrow> True | Inr ht \<Rightarrow> ht = (None, None)"
    by (auto simp add: read_dht11_both_def dht_rejected_def split: sum.splits option.splits)
  from rej show "handle_keypress ''2'' echo (in_dht inp) s = s"
    by (auto simp add: handle_keypress_def read_dht11_both_def dht_rejected_def
        split: sum.splits option.splits)
qed

theorem rejected_temperature_keeps_values_witness:
  "readings (sensors_iteration (sample_dry\<lparr>in_now := 1010, in_dht := Inr (Some 40, Some 150)\<rparr>)
               (sensors_iteration sample_dry (boot None))) ''temp_c''
     = readings (sensors_iteration sample_dry (boot None)) ''temp_c''
   \<and> readings (sensors_iteration (sample_dry\<lparr>in_now := 1010, in_dht := Inr (Some 40, Some 150)\<rparr>)
               (sensors_iteration sample_dry (boot None))) ''humidity''
     = readings (sensors_iteration sample_dry (boot None)) ''humidity''"
  using rejected_temperature_keeps_values [of "sample_dry\<lparr>in_now := 1010, in_dht := Inr (Some 40, Some 150)\<rparr>"
             "sensors_iteration sample_dry (boot None)"]
  by (simp add: dht_rejected_def TEMP_MAX_C_def)

end
